theory Spec2Isabelle
  imports Main
begin

section \<open>Python values and exceptions\<close>

text \<open>
  The manager service is Python. An exception that leaves a function is a value
  \<open>Inl e\<close> of the result; a normal return is \<open>Inr v\<close>. The exceptions below are the
  ones the handlers of \<^verbatim>\<open>manager/service.py\<close> can meet: a missing attribute of an
  enumeration class, a pydantic validation failure, peewee's lookup failure, the Docker
  SDK's \<^verbatim>\<open>NotFound\<close> and \<^verbatim>\<open>APIError\<close> (with its explanation), the registry's
  \<^verbatim>\<open>DBError\<close> (with its message), and the failures of list and dict access.
\<close>

datatype py_error =
    AttributeError string
  | ValidationError string
  | DoesNotExist
  | NotFound
  | APIError string
  | DBError string
  | KeyError string
  | ValueError
  | IndexError
  | OverflowError

section \<open>manager/api.py\<close>

subsection \<open>PermissionLevel\<close>

datatype PermissionLevel = OWNER | ADMIN | USER

text \<open>The enumeration values: \<^verbatim>\<open>OWNER = 0\<close>, \<^verbatim>\<open>ADMIN = 1\<close>, \<^verbatim>\<open>USER = 2\<close>.\<close>

fun level_value :: "PermissionLevel \<Rightarrow> int" where
  "level_value OWNER = 0"
| "level_value ADMIN = 1"
| "level_value USER = 2"

text \<open>\<^verbatim>\<open>list(PermissionLevel)\<close>: the members in definition order.\<close>

definition PermissionLevel_list :: "PermissionLevel list" where
  "PermissionLevel_list = [OWNER, ADMIN, USER]"

text \<open>\<^verbatim>\<open>xs.index(x)\<close>: the first position of \<open>x\<close>, \<^verbatim>\<open>ValueError\<close> when absent.\<close>

fun list_index :: "'a list \<Rightarrow> 'a \<Rightarrow> py_error + int" where
  "list_index [] x = Inl ValueError"
| "list_index (y # ys) x =
     (if y = x then Inr 0
      else (case list_index ys x of Inl e \<Rightarrow> Inl e | Inr i \<Rightarrow> Inr (i + 1)))"

text \<open>\<^verbatim>\<open>xs[i]\<close>: positions from the front, or from the back when \<open>i\<close> is negative.\<close>

definition list_getitem :: "'a list \<Rightarrow> int \<Rightarrow> py_error + 'a" where
  "list_getitem xs i =
     (if 0 \<le> i \<and> i < int (length xs) then Inr (xs ! nat i)
      else if i < 0 \<and> - int (length xs) \<le> i then Inr (xs ! nat (int (length xs) + i))
      else Inl IndexError)"

text \<open>
  \<^verbatim>\<open>list(PermissionLevel)[max(0, list(PermissionLevel).index(self) - 1)]\<close>
\<close>

definition higher_permission :: "PermissionLevel \<Rightarrow> py_error + PermissionLevel" where
  "higher_permission self =
     (case list_index PermissionLevel_list self of
        Inl e \<Rightarrow> Inl e
      | Inr i \<Rightarrow> list_getitem PermissionLevel_list (max 0 (i - 1)))"

subsection \<open>ReturnCodes\<close>

text \<open>The ten members that the class body of \<^verbatim>\<open>ReturnCodes\<close> defines, in order.\<close>

datatype ReturnCodes =
    DB_ERROR
  | PERMISSION_ERROR
  | ALREADY_REGISTERED_ERROR
  | NOT_REGISTERED_ERROR
  | KEY_MISSING_ERROR
  | WORKER_INFO
  | REGISTRATION_SUCCESSFUL
  | PERMISSION_OK
  | DISPATCH_OK
  | RESOURCES

definition ReturnCodes_list :: "ReturnCodes list" where
  "ReturnCodes_list =
     [DB_ERROR, PERMISSION_ERROR, ALREADY_REGISTERED_ERROR, NOT_REGISTERED_ERROR,
      KEY_MISSING_ERROR, WORKER_INFO, REGISTRATION_SUCCESSFUL, PERMISSION_OK,
      DISPATCH_OK, RESOURCES]"

text \<open>\<^verbatim>\<open>member.name\<close>: the identifier the member is defined under.\<close>

fun code_name :: "ReturnCodes \<Rightarrow> string" where
  "code_name DB_ERROR = ''DB_ERROR''"
| "code_name PERMISSION_ERROR = ''PERMISSION_ERROR''"
| "code_name ALREADY_REGISTERED_ERROR = ''ALREADY_REGISTERED_ERROR''"
| "code_name NOT_REGISTERED_ERROR = ''NOT_REGISTERED_ERROR''"
| "code_name KEY_MISSING_ERROR = ''KEY_MISSING_ERROR''"
| "code_name WORKER_INFO = ''WORKER_INFO''"
| "code_name REGISTRATION_SUCCESSFUL = ''REGISTRATION_SUCCESSFUL''"
| "code_name PERMISSION_OK = ''PERMISSION_OK''"
| "code_name DISPATCH_OK = ''DISPATCH_OK''"
| "code_name RESOURCES = ''RESOURCES''"

text \<open>
  \<^verbatim>\<open>ReturnCodes.X\<close>, the attribute access on the enumeration class, under a naming of
  the members: the member named \<open>X\<close>, and \<^verbatim>\<open>AttributeError\<close> when the class body
  defines no such member.
\<close>

definition ReturnCodes_attr :: "string \<Rightarrow> py_error + ReturnCodes" where
  "ReturnCodes_attr x =
     (case find (\<lambda>c. code_name c = x) ReturnCodes_list of
        None \<Rightarrow> Inl (AttributeError x)
      | Some c \<Rightarrow> Inr c)"



fun startswith :: "string \<Rightarrow> string \<Rightarrow> bool" where
  "startswith s [] = True"
| "startswith [] (p # ps) = False"
| "startswith (c # cs) (p # ps) = (c = p \<and> startswith cs ps)"

fun str_contains :: "string \<Rightarrow> string \<Rightarrow> bool" where
  "str_contains sub [] = (sub = [])"
| "str_contains sub (c # cs) = (startswith (c # cs) sub \<or> str_contains sub cs)"



subsection \<open>ManagerAnswer\<close>

text \<open>What a data mapping of an answer can hold (\<^verbatim>\<open>Mapping[str, Any]\<close>).\<close>

datatype py_value =
    PyNone
  | PyBool bool
  | PyInt int
  | PyStr string
  | PyLevel PermissionLevel
  | PyList "py_value list"
  | PyDict "(string \<times> py_value) list"

record ManagerAnswer =
  code :: ReturnCodes
  data :: "(string \<times> py_value) list"

text \<open>
  The constructor call \<^verbatim>\<open>ManagerAnswer(code=ReturnCodes.X, data=d)\<close>. The argument
  \<^verbatim>\<open>ReturnCodes.X\<close> is evaluated first and may raise. The class declares both fields
  without a default, so pydantic requires both: a call without \<^verbatim>\<open>data\<close> (here
  \<open>None\<close>) raises its \<^verbatim>\<open>ValidationError\<close>.
\<close>

definition ManagerAnswer_new ::
  "string \<Rightarrow> (string \<times> py_value) list option \<Rightarrow> py_error + ManagerAnswer" where
  "ManagerAnswer_new x d =
     (case ReturnCodes_attr x of
        Inl e \<Rightarrow> Inl e
      | Inr c \<Rightarrow>
          (case d of
             None \<Rightarrow> Inl (ValidationError ''data'')
           | Some m \<Rightarrow> Inr \<lparr>code = c, data = m\<rparr>))"

section \<open>The collaborators of the service\<close>

subsection \<open>Request and registry records\<close>

text \<open>
  \<^verbatim>\<open>RequestUser\<close> and \<^verbatim>\<open>WorkerModel\<close> are declared in \<^verbatim>\<open>beer/models.py\<close>; the
  fields are the ones \<^verbatim>\<open>build_request_user\<close> and the handlers read and write.
\<close>

record RequestUser =
  user_id :: string
  username :: "string option"
  full_name :: string

record WorkerModel =
  wm_hostname :: string
  wm_volumes_root :: string
  wm_external_ip :: "string option"

text \<open>
  The registry's entities, as the handlers use them: \<^verbatim>\<open>user.id\<close>,
  \<^verbatim>\<open>admin.username\<close>, \<^verbatim>\<open>user.public_ssh_key\<close>, \<^verbatim>\<open>worker.hostname\<close>,
  \<^verbatim>\<open>worker.volumes_root\<close>, \<^verbatim>\<open>gpu['uuid']\<close>. A user record that holds contact
  information only has no permission level yet.
\<close>

record User =
  u_id :: string
  u_username :: "string option"
  u_full_name :: "string option"
  u_permission_level :: "PermissionLevel option"
  u_public_ssh_key :: "string option"

record Worker =
  wk_hostname :: string
  wk_external_ip :: "string option"
  wk_volumes_root :: string
  wk_registered :: int

record GPU =
  gpu_uuid :: string
  gpu_worker :: string
  gpu_available :: bool

text \<open>\<^verbatim>\<open>worker.__data__\<close> and \<^verbatim>\<open>model_to_dict\<close>: the fields of a record as a dict.\<close>

definition opt_str :: "string option \<Rightarrow> py_value" where
  "opt_str s = (case s of None \<Rightarrow> PyNone | Some t \<Rightarrow> PyStr t)"

definition Worker_data :: "Worker \<Rightarrow> py_value" where
  "Worker_data worker =
     PyDict [(''hostname'', PyStr (wk_hostname worker)),
             (''external_ip'', opt_str (wk_external_ip worker)),
             (''volumes_root'', PyStr (wk_volumes_root worker)),
             (''registered'', PyInt (wk_registered worker))]"

definition GPU_data :: "GPU \<Rightarrow> py_value" where
  "GPU_data gpu =
     PyDict [(''uuid'', PyStr (gpu_uuid gpu)),
             (''worker'', PyStr (gpu_worker gpu)),
             (''available'', PyBool (gpu_available gpu))]"

subsection \<open>The registry module \<^verbatim>\<open>beer_db\<close>\<close>

text \<open>
  \<^verbatim>\<open>manager/beer_db.py\<close> is a parameter of the handlers: a record of the operations
  that \<^verbatim>\<open>service.py\<close> calls on \<^verbatim>\<open>User\<close>, \<^verbatim>\<open>Worker\<close> and \<^verbatim>\<open>GPU\<close>, over a
  state \<open>'w\<close> of everything outside the handler. A query reads the state and may raise;
  a write returns the new state as well.
\<close>

record 'w beer_db =
  User_update_details ::
    "string \<Rightarrow> string option \<Rightarrow> string \<Rightarrow> 'w \<Rightarrow> (py_error + unit) \<times> 'w"
  User_is_registered :: "string \<Rightarrow> 'w \<Rightarrow> py_error + bool"
  User_get_admins :: "'w \<Rightarrow> py_error + User list"
  User_permission_check :: "string \<Rightarrow> int \<Rightarrow> 'w \<Rightarrow> py_error + bool"
  User_register :: "string \<Rightarrow> PermissionLevel \<Rightarrow> 'w \<Rightarrow> (py_error + unit) \<times> 'w"
  User_get_by_id :: "string \<Rightarrow> 'w \<Rightarrow> py_error + User"
  User_save_public_ssh_key :: "User \<Rightarrow> 'w \<Rightarrow> (py_error + unit) \<times> 'w"
  Worker_register :: "WorkerModel \<Rightarrow> 'w \<Rightarrow> (py_error + Worker) \<times> 'w"
  Worker_get_by_id :: "string \<Rightarrow> 'w \<Rightarrow> py_error + Worker"
  GPU_by_workers :: "string list \<Rightarrow> 'w \<Rightarrow> py_error + (Worker \<times> GPU list) list"

text \<open>\<^verbatim>\<open>e.args\<close> of a caught exception.\<close>

fun exc_args :: "py_error \<Rightarrow> py_value" where
  "exc_args (AttributeError m) = PyList [PyStr m]"
| "exc_args (ValidationError m) = PyList [PyStr m]"
| "exc_args (APIError m) = PyList [PyStr m]"
| "exc_args (DBError m) = PyList [PyStr m]"
| "exc_args (KeyError m) = PyList [PyStr m]"
| "exc_args e = PyList []"

text \<open>\<^verbatim>\<open>sep.join(xs)\<close>.\<close>

fun str_join :: "string \<Rightarrow> string list \<Rightarrow> string" where
  "str_join sep [] = []"
| "str_join sep [x] = x"
| "str_join sep (x # y # ys) = x @ sep @ str_join sep (y # ys)"

subsection \<open>The Docker client\<close>

text \<open>
  The Docker SDK is the second parameter: the calls the handlers make on the global
  \<^verbatim>\<open>client\<close>, over the same outside state. A config has an id and a name, a service
  its \<^verbatim>\<open>attrs\<close> (with the labels of its spec), a node the three attributes that
  \<^verbatim>\<open>list_resources\<close> reads.
\<close>

record Config =
  cfg_id :: string
  cfg_name :: string

record ConfigReference =
  ref_config_id :: string
  ref_config_name :: string
  ref_filename :: string

record ServiceSpec =
  sp_image :: string
  sp_name :: string
  sp_tty :: bool
  sp_labels :: "(string \<times> string) list"
  sp_ports :: "(int option \<times> int \<times> int option \<times> string) list"
  sp_constraints :: "string list"
  sp_env :: "string list"
  sp_configs :: "ConfigReference list"
  sp_mount :: "string list"

record Service =
  svc_labels :: "(string \<times> string) list"
  svc_attrs :: py_value

record Node =
  node_state :: string
  node_availability :: string
  node_hostname :: string

record 'w docker_client =
  configs_get :: "string \<Rightarrow> 'w \<Rightarrow> py_error + Config"
  config_remove :: "Config \<Rightarrow> 'w \<Rightarrow> (py_error + unit) \<times> 'w"
  configs_create :: "string \<Rightarrow> string \<Rightarrow> 'w \<Rightarrow> (py_error + Config) \<times> 'w"
  config_reload :: "Config \<Rightarrow> 'w \<Rightarrow> py_error + Config"
  services_create :: "ServiceSpec \<Rightarrow> 'w \<Rightarrow> (py_error + Service) \<times> 'w"
  service_reload :: "Service \<Rightarrow> 'w \<Rightarrow> py_error + Service"
  services_list :: "string \<Rightarrow> 'w \<Rightarrow> py_error + Service list"
  nodes_list :: "string \<Rightarrow> 'w \<Rightarrow> py_error + Node list"
  node_reload :: "Node \<Rightarrow> 'w \<Rightarrow> py_error + Node"

text \<open>
  \<^verbatim>\<open>JobRequestModel\<close> of \<^verbatim>\<open>beer/models.py\<close>, with the fields \<^verbatim>\<open>dispatch\<close> reads.
  A requested GPU is a dict, read at \<^verbatim>\<open>'uuid'\<close>; the expected duration is a whole
  number of hours.
\<close>

record JobRequestModel =
  job_worker_hostname :: string
  job_image :: string
  job_gpus :: "(string \<rightharpoonup> string) list"
  job_expected_duration :: int
  job_volume_mount :: string
  job_user_id :: string

subsection \<open>Dates and times\<close>

text \<open>
  A naive \<^verbatim>\<open>datetime\<close> holds its civil fields. Adding a \<^verbatim>\<open>timedelta\<close> goes through
  the proleptic Gregorian ordinal of the date, as the standard library does
  (\<^verbatim>\<open>_ymd2ord\<close>, \<^verbatim>\<open>_ord2ymd\<close>), and raises \<^verbatim>\<open>OverflowError\<close> when the result leaves
  the years 1 to 9999.
\<close>

record datetime =
  dt_year :: int
  dt_month :: int
  dt_day :: int
  dt_hour :: int
  dt_minute :: int
  dt_second :: int
  dt_microsecond :: int

definition is_leap :: "int \<Rightarrow> bool" where
  "is_leap y = (y mod 4 = 0 \<and> (y mod 100 \<noteq> 0 \<or> y mod 400 = 0))"

definition days_before_year :: "int \<Rightarrow> int" where
  "days_before_year year = (year - 1) * 365 + (year - 1) div 4 - (year - 1) div 100
     + (year - 1) div 400"

definition DAYS_IN_MONTH :: "int list" where
  "DAYS_IN_MONTH = [-1, 31, 28, 31, 30, 31, 30, 31, 31, 30, 31, 30, 31]"

definition DAYS_BEFORE_MONTH :: "int list" where
  "DAYS_BEFORE_MONTH = [-1, 0, 31, 59, 90, 120, 151, 181, 212, 243, 273, 304, 334]"

definition days_before_month :: "int \<Rightarrow> int \<Rightarrow> int" where
  "days_before_month year month =
     DAYS_BEFORE_MONTH ! nat month + (if month > 2 \<and> is_leap year then 1 else 0)"

definition ymd2ord :: "int \<Rightarrow> int \<Rightarrow> int \<Rightarrow> int" where
  "ymd2ord year month day = days_before_year year + days_before_month year month + day"

definition ord2ymd :: "int \<Rightarrow> int \<times> int \<times> int" where
  "ord2ymd ordinal =
     (let n = ordinal - 1;
          n400 = n div 146097; n = n mod 146097;
          n100 = n div 36524; n = n mod 36524;
          n4 = n div 1461; n = n mod 1461;
          n1 = n div 365; n = n mod 365;
          year = n400 * 400 + 1 + n100 * 100 + n4 * 4 + n1
      in if n1 = 4 \<or> n100 = 4 then (year - 1, 12, 31)
         else
           (let leapyear = (n1 = 3 \<and> (n4 \<noteq> 24 \<or> n100 = 3));
                month = (n + 50) div 32;
                preceding = DAYS_BEFORE_MONTH ! nat month
                              + (if month > 2 \<and> leapyear then 1 else 0)
            in if preceding > n
               then (year, month - 1,
                     n - (preceding - (DAYS_IN_MONTH ! nat (month - 1)
                                        + (if month - 1 = 2 \<and> leapyear then 1 else 0))) + 1)
               else (year, month, n - preceding + 1)))"

text \<open>\<^verbatim>\<open>now + timedelta(hours=h)\<close>.\<close>

definition datetime_add_hours :: "datetime \<Rightarrow> int \<Rightarrow> py_error + datetime" where
  "datetime_add_hours t h =
     (let seconds = (ymd2ord (dt_year t) (dt_month t) (dt_day t) * 24 + dt_hour t + h) * 3600
                      + dt_minute t * 60 + dt_second t;
          days = seconds div 86400;
          rest = seconds mod 86400
      in if 0 < days \<and> days \<le> 3652059
         then (case ord2ymd days of
                 (y, m, d) \<Rightarrow>
                   Inr \<lparr>dt_year = y, dt_month = m, dt_day = d,
                        dt_hour = rest div 3600, dt_minute = rest mod 3600 div 60,
                        dt_second = rest mod 60, dt_microsecond = dt_microsecond t\<rparr>)
         else Inl OverflowError)"

text \<open>
  \<^verbatim>\<open>strftime('%m%d%Y%H%M%S')\<close>: month, day, hour, minute and second as two digits, the
  year in decimal (four digits from the year 1000 on; the C library does not pad it).
\<close>

definition digit :: "int \<Rightarrow> char" where
  "digit n = ''0123456789'' ! nat n"

definition two_digits :: "int \<Rightarrow> string" where
  "two_digits n = [digit (n div 10), digit (n mod 10)]"

definition year_digits :: "int \<Rightarrow> string" where
  "year_digits y =
     (if y < 10 then [digit y]
      else if y < 100 then two_digits y
      else if y < 1000 then digit (y div 100) # two_digits (y mod 100)
      else two_digits (y div 100) @ two_digits (y mod 100))"

definition strftime_mdYHMS :: "datetime \<Rightarrow> string" where
  "strftime_mdYHMS t =
     two_digits (dt_month t) @ two_digits (dt_day t) @ year_digits (dt_year t) @
     two_digits (dt_hour t) @ two_digits (dt_minute t) @ two_digits (dt_second t)"

text \<open>
  The decoding of an expiry label, following the spec's words (a fixed-width timestamp
  string, which a reaper must parse exactly as encoded): fourteen decimal digits, read as
  month, day, year, hour, minute and second. The result has the resolution of the
  encoding, one second.
\<close>

definition digit_value :: "char \<Rightarrow> int option" where
  "digit_value c = map_of (zip ''0123456789'' [0, 1, 2, 3, 4, 5, 6, 7, 8, 9]) c"

fun number_of_digits :: "int \<Rightarrow> string \<Rightarrow> int option" where
  "number_of_digits acc [] = Some acc"
| "number_of_digits acc (c # cs) =
     (case digit_value c of
        None \<Rightarrow> None
      | Some v \<Rightarrow> number_of_digits (acc * 10 + v) cs)"

definition decode_expire_label :: "string \<Rightarrow> datetime option" where
  "decode_expire_label s =
     (if length s \<noteq> 14 then None
      else
        (case (number_of_digits 0 (take 2 s), number_of_digits 0 (take 2 (drop 2 s)),
               number_of_digits 0 (take 4 (drop 4 s)), number_of_digits 0 (take 2 (drop 8 s)),
               number_of_digits 0 (take 2 (drop 10 s)), number_of_digits 0 (take 2 (drop 12 s))) of
           (Some mo, Some d, Some y, Some h, Some mi, Some sec) \<Rightarrow>
             Some \<lparr>dt_year = y, dt_month = mo, dt_day = d, dt_hour = h, dt_minute = mi,
                   dt_second = sec, dt_microsecond = 0\<rparr>
         | _ \<Rightarrow> None))"

section \<open>manager/service.py\<close>

text \<open>\<^verbatim>\<open>is_ready\<close>, the handler of \<^verbatim>\<open>/ready\<close>: \<^verbatim>\<open>ManagerAnswer(code=ReturnCodes.READY)\<close>.\<close>

definition is_ready :: "py_error + ManagerAnswer" where
  "is_ready = ManagerAnswer_new ''READY'' None"

text \<open>
  \<^verbatim>\<open>add_worker\<close>, the handler of \<^verbatim>\<open>/join\<close>. \<open>client_host\<close> is
  \<^verbatim>\<open>request.client.host\<close>. Only \<^verbatim>\<open>DBError\<close> is caught.
\<close>

definition add_worker ::
  "'w beer_db \<Rightarrow> WorkerModel \<Rightarrow> string \<Rightarrow> 'w \<Rightarrow> (py_error + ManagerAnswer) \<times> 'w" where
  "add_worker db worker_model client_host w =
     (case Worker_register db (worker_model\<lparr>wm_external_ip := Some client_host\<rparr>) w of
        (Inr worker, w1) \<Rightarrow>
          (case ManagerAnswer_new ''WORKER_INFO'' (Some [(''info'', Worker_data worker)]) of
             Inl (DBError m) \<Rightarrow>
               (ManagerAnswer_new ''DB_ERROR'' (Some [(''message'', PyStr m)]), w1)
           | r \<Rightarrow> (r, w1))
      | (Inl (DBError m), w1) \<Rightarrow>
          (ManagerAnswer_new ''DB_ERROR'' (Some [(''message'', PyStr m)]), w1)
      | (Inl e, w1) \<Rightarrow> (Inl e, w1))"

text \<open>
  \<^verbatim>\<open>permission_check\<close>: \<open>Inr None\<close> is the return of \<^verbatim>\<open>None\<close> at the end of the
  function body (the caller is admitted), \<open>Inr (Some a)\<close> the return of an answer. The
  second operand of \<^verbatim>\<open>and\<close> is evaluated only when the first holds. The answer of the
  last branch is built without \<^verbatim>\<open>data\<close>.
\<close>

definition admins_text :: "User list \<Rightarrow> string" where
  "admins_text admins =
     str_join [CHR 0x0A]
       (List.map_filter
          (\<lambda>admin. case u_username admin of None \<Rightarrow> None | Some n \<Rightarrow> Some (''- @'' @ n))
          admins)"

definition permission_check ::
  "'w beer_db \<Rightarrow> RequestUser \<Rightarrow> PermissionLevel \<Rightarrow> 'w \<Rightarrow>
     (py_error + ManagerAnswer option) \<times> 'w" where
  "permission_check db request_user required_level w =
     (case User_update_details db (user_id request_user) (username request_user)
             (full_name request_user) w of
        (Inl e, w1) \<Rightarrow> (Inl e, w1)
      | (Inr u, w1) \<Rightarrow>
          (case (if required_level = USER
                 then (case User_is_registered db (user_id request_user) w1 of
                         Inl e \<Rightarrow> Inl e
                       | Inr registered \<Rightarrow> Inr (\<not> registered))
                 else Inr False) of
             Inl e \<Rightarrow> (Inl e, w1)
           | Inr not_registered \<Rightarrow>
               if not_registered then
                 (case User_get_admins db w1 of
                    Inl e \<Rightarrow> (Inl e, w1)
                  | Inr admins \<Rightarrow>
                      (case ManagerAnswer_new ''NOT_REGISTERED_ERROR''
                              (Some [(''admins'', PyStr (admins_text admins))]) of
                         Inl e \<Rightarrow> (Inl e, w1)
                       | Inr a \<Rightarrow> (Inr (Some a), w1)))
               else
                 (case User_permission_check db (user_id request_user)
                         (level_value required_level) w1 of
                    Inl e \<Rightarrow> (Inl e, w1)
                  | Inr allowed \<Rightarrow>
                      if \<not> allowed then
                        (case ManagerAnswer_new ''PERMISSION_ERROR'' None of
                           Inl e \<Rightarrow> (Inl e, w1)
                         | Inr a \<Rightarrow> (Inr (Some a), w1))
                      else (Inr None, w1))))"

text \<open>
  The body of a \<^verbatim>\<open>try\<close> whose handler is \<^verbatim>\<open>except Exception as e\<close> returning the
  \<^verbatim>\<open>DB_ERROR\<close> answer with \<^verbatim>\<open>e.args\<close>: the registration and the answer of the
  success are both inside the \<^verbatim>\<open>try\<close>.
\<close>

definition register_or_db_error ::
  "'w beer_db \<Rightarrow> string \<Rightarrow> PermissionLevel \<Rightarrow> (string \<times> py_value) list \<Rightarrow> 'w \<Rightarrow>
     (py_error + ManagerAnswer) \<times> 'w" where
  "register_or_db_error db uid level success_data w =
     (case User_register db uid level w of
        (Inl e, w1) \<Rightarrow> (ManagerAnswer_new ''DB_ERROR'' (Some [(''args'', exc_args e)]), w1)
      | (Inr u, w1) \<Rightarrow>
          (case ManagerAnswer_new ''REGISTRATION_SUCCESSFUL'' (Some success_data) of
             Inl e \<Rightarrow> (ManagerAnswer_new ''DB_ERROR'' (Some [(''args'', exc_args e)]), w1)
           | Inr a \<Rightarrow> (Inr a, w1)))"

text \<open>
  \<^verbatim>\<open>set_permission\<close>, the handler of \<^verbatim>\<open>/set_permission\<close>. Its first statement is
  \<^verbatim>\<open>if not permission_check(...): return ManagerAnswer(code=PERMISSION_ERROR, data={})\<close>:
  \<^verbatim>\<open>not None\<close> is true, and \<^verbatim>\<open>not a\<close> is false for an answer \<open>a\<close> (an object
  without \<^verbatim>\<open>__bool__\<close> and \<^verbatim>\<open>__len__\<close> is true).
\<close>

definition set_permission ::
  "'w beer_db \<Rightarrow> RequestUser \<Rightarrow> string \<Rightarrow> PermissionLevel \<Rightarrow> 'w \<Rightarrow>
     (py_error + ManagerAnswer) \<times> 'w" where
  "set_permission db request_user uid permission_level w =
     (case higher_permission permission_level of
        Inl e \<Rightarrow> (Inl e, w)
      | Inr required_level \<Rightarrow>
          (case permission_check db request_user required_level w of
             (Inl e, w1) \<Rightarrow> (Inl e, w1)
           | (Inr None, w1) \<Rightarrow> (ManagerAnswer_new ''PERMISSION_ERROR'' (Some []), w1)
           | (Inr (Some a), w1) \<Rightarrow>
               (case User_is_registered db uid w1 of
                  Inl e \<Rightarrow> (Inl e, w1)
                | Inr registered \<Rightarrow>
                    if \<not> registered then
                      (ManagerAnswer_new ''NOT_REGISTERED_ERROR''
                         (Some [(''user_id'', PyStr uid)]), w1)
                    else
                      register_or_db_error db uid permission_level
                        [(''user_id'', PyStr uid),
                         (''permission_level'', PyLevel permission_level)] w1)))"

text \<open>
  \<^verbatim>\<open>register_user\<close>, the handler of \<^verbatim>\<open>/register_user\<close>, with the guard
  \<^verbatim>\<open>if (permission_error := permission_check(...)) is not None: return permission_error\<close>.
\<close>

definition register_user ::
  "'w beer_db \<Rightarrow> RequestUser \<Rightarrow> string \<Rightarrow> 'w \<Rightarrow> (py_error + ManagerAnswer) \<times> 'w" where
  "register_user db request_user uid w =
     (case permission_check db request_user ADMIN w of
        (Inl e, w1) \<Rightarrow> (Inl e, w1)
      | (Inr (Some permission_error), w1) \<Rightarrow> (Inr permission_error, w1)
      | (Inr None, w1) \<Rightarrow>
          (case User_is_registered db uid w1 of
             Inl e \<Rightarrow> (Inl e, w1)
           | Inr registered \<Rightarrow>
               if registered then
                 (ManagerAnswer_new ''ALREADY_REGISTERED_ERROR''
                    (Some [(''user_id'', PyStr uid)]), w1)
               else
                 register_or_db_error db uid USER [(''user_id'', PyStr uid)] w1))"

text \<open>The module constants.\<close>

definition SWARM_RESOURCE :: string where
  "SWARM_RESOURCE = ''DOCKER_RESOURCE_GPU''"

definition LABEL_USER_ID :: string where
  "LABEL_USER_ID = ''beer.user_id''"

definition LABEL_EXPIRE :: string where
  "LABEL_EXPIRE = ''beer.expire''"

definition CONFIG_PREFIX :: string where
  "CONFIG_PREFIX = ''beer_ssh-key_''"

text \<open>
  The \<^verbatim>\<open>try\<close> statement of \<^verbatim>\<open>set_ssh_key\<close>: get the config and remove it;
  \<^verbatim>\<open>NotFound\<close> is passed over; an \<^verbatim>\<open>APIError\<close> whose explanation says that the config
  is in use returns an answer (\<open>Inr (Some a)\<close>), any other \<^verbatim>\<open>APIError\<close> is passed over
  as well; every other exception leaves the handler.
\<close>

definition remove_old_config ::
  "'w docker_client \<Rightarrow> string \<Rightarrow> 'w \<Rightarrow> (py_error + ManagerAnswer option) \<times> 'w" where
  "remove_old_config client config_name w =
     (case (case configs_get client config_name w of
              Inl e \<Rightarrow> (Inl e, w)
            | Inr docker_config \<Rightarrow> config_remove client docker_config w) of
        (Inr u, w1) \<Rightarrow> (Inr None, w1)
      | (Inl NotFound, w1) \<Rightarrow> (Inr None, w1)
      | (Inl (APIError explanation), w1) \<Rightarrow>
          if str_contains ''in use by the following service'' explanation then
            (case ManagerAnswer_new ''KEY_IN_USE_ERROR'' (Some []) of
               Inl e \<Rightarrow> (Inl e, w1)
             | Inr a \<Rightarrow> (Inr (Some a), w1))
          else (Inr None, w1)
      | (Inl e, w1) \<Rightarrow> (Inl e, w1))"

text \<open>\<^verbatim>\<open>set_ssh_key\<close>, the handler of \<^verbatim>\<open>/set_ssh_key\<close>.\<close>

definition set_ssh_key ::
  "'w beer_db \<Rightarrow> 'w docker_client \<Rightarrow> RequestUser \<Rightarrow> string \<Rightarrow> 'w \<Rightarrow>
     (py_error + ManagerAnswer) \<times> 'w" where
  "set_ssh_key db client request_user ssh_key w =
     (case permission_check db request_user USER w of
        (Inl e, w1) \<Rightarrow> (Inl e, w1)
      | (Inr (Some permission_error), w1) \<Rightarrow> (Inr permission_error, w1)
      | (Inr None, w1) \<Rightarrow>
          (case User_get_by_id db (user_id request_user) w1 of
             Inl e \<Rightarrow> (Inl e, w1)
           | Inr user \<Rightarrow>
               (case remove_old_config client (CONFIG_PREFIX @ u_id user) w1 of
                  (Inl e, w2) \<Rightarrow> (Inl e, w2)
                | (Inr (Some in_use), w2) \<Rightarrow> (Inr in_use, w2)
                | (Inr None, w2) \<Rightarrow>
                    (case configs_create client (CONFIG_PREFIX @ u_id user) ssh_key w2 of
                       (Inl e, w3) \<Rightarrow> (Inl e, w3)
                     | (Inr created, w3) \<Rightarrow>
                         (case config_reload client created w3 of
                            Inl e \<Rightarrow> (Inl e, w3)
                          | Inr docker_config \<Rightarrow>
                              if cfg_name docker_config \<noteq> CONFIG_PREFIX @ u_id user then
                                (ManagerAnswer_new ''RUNTIME_ERROR''
                                   (Some [(''config_name'', PyStr (CONFIG_PREFIX @ u_id user)),
                                          (''docker_config_name'',
                                           PyStr (cfg_name docker_config))]), w3)
                              else
                                (case User_save_public_ssh_key db
                                        (user\<lparr>u_public_ssh_key := Some ssh_key\<rparr>) w3 of
                                   (Inl e, w4) \<Rightarrow> (Inl e, w4)
                                 | (Inr u, w4) \<Rightarrow>
                                     (ManagerAnswer_new ''SET_KEY_SUCCESSFUL'' None, w4)))))))"

text \<open>\<^verbatim>\<open>check_ssh_key\<close>, the handler of \<^verbatim>\<open>/check_ssh_key\<close>.\<close>

definition check_ssh_key ::
  "'w beer_db \<Rightarrow> RequestUser \<Rightarrow> 'w \<Rightarrow> (py_error + ManagerAnswer) \<times> 'w" where
  "check_ssh_key db request_user w =
     (case permission_check db request_user USER w of
        (Inl e, w1) \<Rightarrow> (Inl e, w1)
      | (Inr (Some permission_error), w1) \<Rightarrow> (Inr permission_error, w1)
      | (Inr None, w1) \<Rightarrow>
          (case User_get_by_id db (user_id request_user) w1 of
             Inl e \<Rightarrow> (Inl e, w1)
           | Inr user \<Rightarrow>
               (ManagerAnswer_new ''KEY_CHECK''
                  (Some [(''is_set'', PyBool (u_public_ssh_key user \<noteq> None))]), w1)))"

text \<open>
  The keyword arguments of \<^verbatim>\<open>client.services.create\<close> in \<^verbatim>\<open>dispatch\<close>. The list
  comprehension of \<^verbatim>\<open>env\<close> raises \<^verbatim>\<open>KeyError\<close> at a GPU without \<^verbatim>\<open>'uuid'\<close>.
\<close>

fun gpu_env :: "(string \<rightharpoonup> string) list \<Rightarrow> py_error + string list" where
  "gpu_env [] = Inr []"
| "gpu_env (gpu # gpus) =
     (case gpu ''uuid'' of
        None \<Rightarrow> Inl (KeyError ''uuid'')
      | Some uuid \<Rightarrow>
          (case gpu_env gpus of
             Inl e \<Rightarrow> Inl e
           | Inr env \<Rightarrow> Inr ((SWARM_RESOURCE @ ''='' @ uuid) # env)))"

definition service_kwargs ::
  "JobRequestModel \<Rightarrow> Worker \<Rightarrow> User \<Rightarrow> Config \<Rightarrow> datetime \<Rightarrow> datetime \<Rightarrow>
     py_error + ServiceSpec" where
  "service_kwargs job worker user docker_config now expire =
     (case gpu_env (job_gpus job) of
        Inl e \<Rightarrow> Inl e
      | Inr env \<Rightarrow>
          Inr \<lparr>sp_image = job_image job,
               sp_name = job_user_id job @ ''_'' @ strftime_mdYHMS now,
               sp_tty = True,
               sp_labels = [(LABEL_USER_ID, job_user_id job),
                            (LABEL_EXPIRE, strftime_mdYHMS expire)],
               sp_ports = [(None, 22, None, ''host'')],
               sp_constraints = [''node.hostname=='' @ wk_hostname worker],
               sp_env = env,
               sp_configs = [\<lparr>ref_config_id = cfg_id docker_config,
                              ref_config_name = cfg_name docker_config,
                              ref_filename = ''/root/.ssh/authorized_keys''\<rparr>],
               sp_mount = [wk_volumes_root worker @ ''/'' @ u_id user @ '':''
                             @ job_volume_mount job @ '':rw'']\<rparr>)"

text \<open>
  \<^verbatim>\<open>dispatch\<close>, the handler of \<^verbatim>\<open>/job\<close>. \<open>now\<close> is
  \<^verbatim>\<open>datetime.fromtimestamp(time.time())\<close>. Both \<^verbatim>\<open>KEY_MISSING_ERROR\<close> answers are
  built without \<^verbatim>\<open>data\<close>.
\<close>

definition dispatch ::
  "'w beer_db \<Rightarrow> 'w docker_client \<Rightarrow> datetime \<Rightarrow> RequestUser \<Rightarrow> JobRequestModel \<Rightarrow> 'w \<Rightarrow>
     (py_error + ManagerAnswer) \<times> 'w" where
  "dispatch db client now request_user job w =
     (case permission_check db request_user USER w of
        (Inl e, w1) \<Rightarrow> (Inl e, w1)
      | (Inr (Some permission_error), w1) \<Rightarrow> (Inr permission_error, w1)
      | (Inr None, w1) \<Rightarrow>
          (case Worker_get_by_id db (job_worker_hostname job) w1 of
             Inl e \<Rightarrow> (Inl e, w1)
           | Inr worker \<Rightarrow>
               (case User_get_by_id db (job_user_id job) w1 of
                  Inl e \<Rightarrow> (Inl e, w1)
                | Inr user \<Rightarrow>
                    if u_public_ssh_key user = None
                    then (ManagerAnswer_new ''KEY_MISSING_ERROR'' None, w1)
                    else
                      (case datetime_add_hours now (job_expected_duration job) of
                         Inl e \<Rightarrow> (Inl e, w1)
                       | Inr expire \<Rightarrow>
                           (case configs_get client (CONFIG_PREFIX @ u_id user) w1 of
                              Inl NotFound \<Rightarrow> (ManagerAnswer_new ''KEY_MISSING_ERROR'' None, w1)
                            | Inl e \<Rightarrow> (Inl e, w1)
                            | Inr docker_config \<Rightarrow>
                                (case service_kwargs job worker user docker_config now expire of
                                   Inl e \<Rightarrow> (Inl e, w1)
                                 | Inr kwargs \<Rightarrow>
                                     (case services_create client kwargs w1 of
                                        (Inl e, w2) \<Rightarrow> (Inl e, w2)
                                      | (Inr created, w2) \<Rightarrow>
                                          (case service_reload client created w2 of
                                             Inl e \<Rightarrow> (Inl e, w2)
                                           | Inr service \<Rightarrow>
                                               (ManagerAnswer_new ''DISPATCH_OK''
                                                  (Some [(''service.attrs'', svc_attrs service)]),
                                                w2)))))))))"

text \<open>
  \<^verbatim>\<open>job_list\<close>, the handler of \<^verbatim>\<open>/job_list\<close>. The list comprehension reads the
  owner label of every listed service.
\<close>

fun services_of :: "string \<Rightarrow> Service list \<Rightarrow> py_error + Service list" where
  "services_of uid [] = Inr []"
| "services_of uid (service # services) =
     (case map_of (svc_labels service) LABEL_USER_ID of
        None \<Rightarrow> Inl (KeyError LABEL_USER_ID)
      | Some owner \<Rightarrow>
          (case services_of uid services of
             Inl e \<Rightarrow> Inl e
           | Inr rest \<Rightarrow> Inr (if owner = uid then service # rest else rest)))"

definition job_list ::
  "'w beer_db \<Rightarrow> 'w docker_client \<Rightarrow> RequestUser \<Rightarrow> 'w \<Rightarrow>
     (py_error + ManagerAnswer) \<times> 'w" where
  "job_list db client request_user w =
     (case permission_check db request_user USER w of
        (Inl e, w1) \<Rightarrow> (Inl e, w1)
      | (Inr (Some permission_error), w1) \<Rightarrow> (Inr permission_error, w1)
      | (Inr None, w1) \<Rightarrow>
          (case User_get_by_id db (user_id request_user) w1 of
             Inl e \<Rightarrow> (Inl e, w1)
           | Inr user \<Rightarrow>
               (case services_list client LABEL_USER_ID w1 of
                  Inl e \<Rightarrow> (Inl e, w1)
                | Inr listed \<Rightarrow>
                    (case services_of (u_id user) listed of
                       Inl e \<Rightarrow> (Inl e, w1)
                     | Inr services \<Rightarrow>
                         (ManagerAnswer_new ''JOB_LIST''
                            (Some [(''services'', PyList (map svc_attrs services))]), w1)))))"

text \<open>
  \<^verbatim>\<open>list_resources\<close>, the handler of \<^verbatim>\<open>/list_resources\<close>. The loop reloads every
  node and keeps the hostnames of the nodes that are \<^verbatim>\<open>ready\<close> and \<^verbatim>\<open>active\<close>. A dict
  comprehension keeps the last value of a repeated key, at the place of the first.
\<close>

fun online_workers :: "'w docker_client \<Rightarrow> Node list \<Rightarrow> 'w \<Rightarrow> py_error + string list" where
  "online_workers client [] w = Inr []"
| "online_workers client (node # nodes) w =
     (case node_reload client node w of
        Inl e \<Rightarrow> Inl e
      | Inr reloaded \<Rightarrow>
          (case online_workers client nodes w of
             Inl e \<Rightarrow> Inl e
           | Inr rest \<Rightarrow>
               Inr (if node_state reloaded = ''ready'' \<and> node_availability reloaded = ''active''
                    then node_hostname reloaded # rest else rest)))"

fun dict_set :: "string \<Rightarrow> py_value \<Rightarrow> (string \<times> py_value) list \<Rightarrow> (string \<times> py_value) list" where
  "dict_set k v [] = [(k, v)]"
| "dict_set k v ((k', v') # d) = (if k' = k then (k, v) # d else (k', v') # dict_set k v d)"

definition dict_of :: "(string \<times> py_value) list \<Rightarrow> (string \<times> py_value) list" where
  "dict_of items = foldl (\<lambda>d (k, v). dict_set k v d) [] items"

definition resources_data :: "(Worker \<times> GPU list) list \<Rightarrow> (string \<times> py_value) list" where
  "resources_data resources =
     [(''workers'',
       PyDict (dict_of (map (\<lambda>(worker, gpus). (wk_hostname worker, Worker_data worker))
                          resources))),
      (''gpus'',
       PyDict (dict_of (map (\<lambda>(worker, gpus). (wk_hostname worker, PyList (map GPU_data gpus)))
                          resources)))]"

definition list_resources ::
  "'w beer_db \<Rightarrow> 'w docker_client \<Rightarrow> RequestUser \<Rightarrow> bool \<Rightarrow> bool \<Rightarrow> 'w \<Rightarrow>
     (py_error + ManagerAnswer) \<times> 'w" where
  "list_resources db client request_user only_online only_available w =
     (case permission_check db request_user USER w of
        (Inl e, w1) \<Rightarrow> (Inl e, w1)
      | (Inr (Some permission_error), w1) \<Rightarrow> (Inr permission_error, w1)
      | (Inr None, w1) \<Rightarrow>
          (case nodes_list client ''worker'' w1 of
             Inl e \<Rightarrow> (Inl e, w1)
           | Inr nodes \<Rightarrow>
               (case online_workers client nodes w1 of
                  Inl e \<Rightarrow> (Inl e, w1)
                | Inr online \<Rightarrow>
                    (case GPU_by_workers db online w1 of
                       Inl e \<Rightarrow> (Inl e, w1)
                     | Inr resources \<Rightarrow>
                         (ManagerAnswer_new ''RESOURCES''
                            (Some (resources_data resources)), w1)))))"

section \<open>An in-memory registry\<close>

text \<open>
  Modelled from the spec: \<^verbatim>\<open>manager/beer_db.py\<close> (the classes \<^verbatim>\<open>User\<close>,
  \<^verbatim>\<open>Worker\<close>, \<^verbatim>\<open>GPU\<close> and \<^verbatim>\<open>DBError\<close>) is not among the sources. The registry
  below follows the capability set of the spec's section 4.2 and the data model of its
  section 3: \<open>getUser\<close>, \<open>isRegistered\<close>, \<open>listAdmins\<close>, \<open>upsertContactInfo\<close>,
  \<open>setPermission\<close>, \<open>registerWorker\<close> (an upsert keyed by hostname that returns the
  current record), \<open>getWorker\<close>, \<open>gpusByWorkers\<close>. A caller is registered when the
  registry holds a permission level for it; the stored level admits a required level
  when it is numerically at most the required one. \<^verbatim>\<open>get_by_id\<close> is peewee's lookup
  by primary key, which raises \<^verbatim>\<open>DoesNotExist\<close> when there is no such row.
\<close>

record StoredConfig =
  sc_config :: Config
  sc_data :: string

record world =
  users :: "User list"
  workers :: "Worker list"
  gpus :: "GPU list"
  clock :: int
  configs :: "StoredConfig list"
  services :: "ServiceSpec list"
  nodes :: "Node list"

definition find_user :: "string \<Rightarrow> world \<Rightarrow> User option" where
  "find_user uid w = find (\<lambda>u. u_id u = uid) (users w)"

definition put_user :: "User \<Rightarrow> world \<Rightarrow> world" where
  "put_user u w =
     (if find_user (u_id u) w = None then w\<lparr>users := users w @ [u]\<rparr>
      else w\<lparr>users := map (\<lambda>v. if u_id v = u_id u then u else v) (users w)\<rparr>)"

definition stored_level :: "string \<Rightarrow> world \<Rightarrow> PermissionLevel option" where
  "stored_level uid w =
     (case find_user uid w of None \<Rightarrow> None | Some u \<Rightarrow> u_permission_level u)"

definition db_update_details ::
  "string \<Rightarrow> string option \<Rightarrow> string \<Rightarrow> world \<Rightarrow> (py_error + unit) \<times> world" where
  "db_update_details uid uname fname w =
     (case find_user uid w of
        None \<Rightarrow>
          (Inr (), put_user \<lparr>u_id = uid, u_username = uname, u_full_name = Some fname,
                             u_permission_level = None, u_public_ssh_key = None\<rparr> w)
      | Some u \<Rightarrow>
          (Inr (), put_user (u\<lparr>u_username := uname, u_full_name := Some fname\<rparr>) w))"

definition db_is_registered :: "string \<Rightarrow> world \<Rightarrow> py_error + bool" where
  "db_is_registered uid w = Inr (stored_level uid w \<noteq> None)"

definition db_get_admins :: "world \<Rightarrow> py_error + User list" where
  "db_get_admins w =
     Inr (filter (\<lambda>u. u_permission_level u = Some OWNER \<or> u_permission_level u = Some ADMIN)
            (users w))"

definition db_permission_check :: "string \<Rightarrow> int \<Rightarrow> world \<Rightarrow> py_error + bool" where
  "db_permission_check uid required w =
     Inr (case stored_level uid w of
            None \<Rightarrow> False
          | Some l \<Rightarrow> level_value l \<le> required)"

definition db_register ::
  "string \<Rightarrow> PermissionLevel \<Rightarrow> world \<Rightarrow> (py_error + unit) \<times> world" where
  "db_register uid level w =
     (case find_user uid w of
        None \<Rightarrow>
          (Inr (), put_user \<lparr>u_id = uid, u_username = None, u_full_name = None,
                             u_permission_level = Some level, u_public_ssh_key = None\<rparr> w)
      | Some u \<Rightarrow> (Inr (), put_user (u\<lparr>u_permission_level := Some level\<rparr>) w))"

definition db_get_user :: "string \<Rightarrow> world \<Rightarrow> py_error + User" where
  "db_get_user uid w = (case find_user uid w of None \<Rightarrow> Inl DoesNotExist | Some u \<Rightarrow> Inr u)"

definition db_save_public_ssh_key :: "User \<Rightarrow> world \<Rightarrow> (py_error + unit) \<times> world" where
  "db_save_public_ssh_key user w =
     (Inr (),
      w\<lparr>users := map (\<lambda>v. if u_id v = u_id user
                            then v\<lparr>u_public_ssh_key := u_public_ssh_key user\<rparr> else v)
                   (users w)\<rparr>)"

definition find_worker :: "string \<Rightarrow> world \<Rightarrow> Worker option" where
  "find_worker h w = find (\<lambda>k. wk_hostname k = h) (workers w)"

definition db_register_worker :: "WorkerModel \<Rightarrow> world \<Rightarrow> (py_error + Worker) \<times> world" where
  "db_register_worker m w =
     (let k = \<lparr>wk_hostname = wm_hostname m, wk_external_ip = wm_external_ip m,
                wk_volumes_root = wm_volumes_root m, wk_registered = clock w\<rparr>
      in (Inr k,
          if find_worker (wm_hostname m) w = None then w\<lparr>workers := workers w @ [k]\<rparr>
          else w\<lparr>workers := map (\<lambda>v. if wk_hostname v = wm_hostname m then k else v)
                                (workers w)\<rparr>))"

definition db_get_worker :: "string \<Rightarrow> world \<Rightarrow> py_error + Worker" where
  "db_get_worker h w = (case find_worker h w of None \<Rightarrow> Inl DoesNotExist | Some k \<Rightarrow> Inr k)"

definition db_gpus_by_workers ::
  "string list \<Rightarrow> world \<Rightarrow> py_error + (Worker \<times> GPU list) list" where
  "db_gpus_by_workers hs w =
     Inr (map (\<lambda>k. (k, filter (\<lambda>g. gpu_worker g = wk_hostname k) (gpus w)))
            (filter (\<lambda>k. wk_hostname k \<in> set hs) (workers w)))"

definition registry :: "world beer_db" where
  "registry =
     \<lparr>User_update_details = db_update_details,
      User_is_registered = db_is_registered,
      User_get_admins = db_get_admins,
      User_permission_check = db_permission_check,
      User_register = db_register,
      User_get_by_id = db_get_user,
      User_save_public_ssh_key = db_save_public_ssh_key,
      Worker_register = db_register_worker,
      Worker_get_by_id = db_get_worker,
      GPU_by_workers = db_gpus_by_workers\<rparr>"

text \<open>
  The remediation hints of the spec's section 4.1, following its words: the usernames of
  the users that are Owner or Admin, for those of them that have a username.
\<close>

definition admin_usernames :: "world \<Rightarrow> string list" where
  "admin_usernames w =
     List.map_filter
       (\<lambda>u. if u_permission_level u = Some OWNER \<or> u_permission_level u = Some ADMIN
            then u_username u else None)
       (users w)"

section \<open>An in-memory swarm\<close>

text \<open>
  A Docker client for the examples: the configs, services and nodes of a swarm kept in
  the state. A config that a service refers to cannot be removed (the daemon answers that
  it is in use by that service); a second config of the same name cannot be created.
\<close>

definition find_config :: "string \<Rightarrow> world \<Rightarrow> StoredConfig option" where
  "find_config n w = find (\<lambda>c. cfg_name (sc_config c) = n) (configs w)"

definition swarm_configs_get :: "string \<Rightarrow> world \<Rightarrow> py_error + Config" where
  "swarm_configs_get n w =
     (case find_config n w of None \<Rightarrow> Inl NotFound | Some c \<Rightarrow> Inr (sc_config c))"

definition config_in_use :: "Config \<Rightarrow> world \<Rightarrow> bool" where
  "config_in_use c w =
     list_ex (\<lambda>sp. list_ex (\<lambda>r. ref_config_name r = cfg_name c) (sp_configs sp)) (services w)"

definition swarm_config_remove :: "Config \<Rightarrow> world \<Rightarrow> (py_error + unit) \<times> world" where
  "swarm_config_remove c w =
     (if config_in_use c w
      then (Inl (APIError (''rpc error: code = InvalidArgument desc = config '' @ cfg_name c
                   @ '' is in use by the following service: job'')), w)
      else (Inr (),
            w\<lparr>configs := filter (\<lambda>s. cfg_name (sc_config s) \<noteq> cfg_name c) (configs w)\<rparr>))"

definition swarm_configs_create ::
  "string \<Rightarrow> string \<Rightarrow> world \<Rightarrow> (py_error + Config) \<times> world" where
  "swarm_configs_create n d w =
     (if find_config n w \<noteq> None
      then (Inl (APIError (''rpc error: code = AlreadyExists desc = config '' @ n
                   @ '' already exists'')), w)
      else (Inr \<lparr>cfg_id = ''id-'' @ n, cfg_name = n\<rparr>,
            w\<lparr>configs := configs w
                 @ [\<lparr>sc_config = \<lparr>cfg_id = ''id-'' @ n, cfg_name = n\<rparr>, sc_data = d\<rparr>]\<rparr>))"

definition service_of_spec :: "ServiceSpec \<Rightarrow> Service" where
  "service_of_spec sp =
     \<lparr>svc_labels = sp_labels sp,
      svc_attrs =
        PyDict [(''Spec'',
                 PyDict [(''Name'', PyStr (sp_name sp)),
                         (''Labels'', PyDict (map (\<lambda>(k, v). (k, PyStr v)) (sp_labels sp)))])]\<rparr>"

definition swarm_services_create ::
  "ServiceSpec \<Rightarrow> world \<Rightarrow> (py_error + Service) \<times> world" where
  "swarm_services_create sp w = (Inr (service_of_spec sp), w\<lparr>services := services w @ [sp]\<rparr>)"

definition swarm_services_list :: "string \<Rightarrow> world \<Rightarrow> py_error + Service list" where
  "swarm_services_list label w =
     Inr (map service_of_spec
            (filter (\<lambda>sp. map_of (sp_labels sp) label \<noteq> None) (services w)))"

definition swarm :: "world docker_client" where
  "swarm =
     \<lparr>configs_get = swarm_configs_get,
      config_remove = swarm_config_remove,
      configs_create = swarm_configs_create,
      config_reload = (\<lambda>c w. Inr c),
      services_create = swarm_services_create,
      service_reload = (\<lambda>s w. Inr s),
      services_list = swarm_services_list,
      nodes_list = (\<lambda>role w. Inr (nodes w)),
      node_reload = (\<lambda>n w. Inr n)\<rparr>"

section \<open>A concrete registry state\<close>

text \<open>
  The owner \<open>1\<close> and the registered user \<open>42\<close>; the identity \<open>7\<close> is unknown to
  the registry. The request users carry the contact information the registry already has.
\<close>

definition owner_rq :: RequestUser where
  "owner_rq = \<lparr>user_id = ''1'', username = Some ''alice'', full_name = ''Alice''\<rparr>"

definition member_rq :: RequestUser where
  "member_rq = \<lparr>user_id = ''42'', username = Some ''bob'', full_name = ''Bob''\<rparr>"

definition stranger_rq :: RequestUser where
  "stranger_rq = \<lparr>user_id = ''7'', username = Some ''eve'', full_name = ''Eve''\<rparr>"

definition world0 :: world where
  "world0 =
     \<lparr>users =
        [\<lparr>u_id = ''1'', u_username = Some ''alice'', u_full_name = Some ''Alice'',
          u_permission_level = Some OWNER, u_public_ssh_key = None\<rparr>,
         \<lparr>u_id = ''42'', u_username = Some ''bob'', u_full_name = Some ''Bob'',
          u_permission_level = Some USER, u_public_ssh_key = None\<rparr>],
      workers = [], gpus = [], clock = 0, configs = [], services = [], nodes = []\<rparr>"

text \<open>
  A registry with the owner \<open>alice\<close>, the admin \<open>carol\<close>, an admin without a
  username and the user \<open>bob\<close>; \<open>carol\<close> as a request user.
\<close>

definition admins_world :: world where
  "admins_world =
     \<lparr>users =
        [\<lparr>u_id = ''1'', u_username = Some ''alice'', u_full_name = Some ''Alice'',
          u_permission_level = Some OWNER, u_public_ssh_key = None\<rparr>,
         \<lparr>u_id = ''42'', u_username = Some ''bob'', u_full_name = Some ''Bob'',
          u_permission_level = Some USER, u_public_ssh_key = None\<rparr>,
         \<lparr>u_id = ''5'', u_username = None, u_full_name = Some ''Dave'',
          u_permission_level = Some ADMIN, u_public_ssh_key = None\<rparr>,
         \<lparr>u_id = ''3'', u_username = Some ''carol'', u_full_name = Some ''Carol'',
          u_permission_level = Some ADMIN, u_public_ssh_key = None\<rparr>],
      workers = [], gpus = [], clock = 0, configs = [], services = [], nodes = []\<rparr>"

definition admin_rq :: RequestUser where
  "admin_rq = \<lparr>user_id = ''3'', username = Some ''carol'', full_name = ''Carol''\<rparr>"

text \<open>
  The registry with no user at all; the state in which \<open>42\<close> has a key and its config;
  and the same state with the worker \<open>gpu-node-1\<close>, two nodes and two GPUs.
\<close>

definition empty_world :: world where
  "empty_world =
     \<lparr>users = [], workers = [], gpus = [], clock = 0, configs = [], services = [],
      nodes = []\<rparr>"

definition joining :: WorkerModel where
  "joining = \<lparr>wm_hostname = ''gpu-node-1'', wm_volumes_root = ''/srv/beer'',
              wm_external_ip = None\<rparr>"

definition bob_key :: string where
  "bob_key = ''ssh-ed25519 AAAAC3Nz bob@laptop''"

definition world1 :: world where
  "world1 =
     \<lparr>users =
        [\<lparr>u_id = ''1'', u_username = Some ''alice'', u_full_name = Some ''Alice'',
          u_permission_level = Some OWNER, u_public_ssh_key = None\<rparr>,
         \<lparr>u_id = ''42'', u_username = Some ''bob'', u_full_name = Some ''Bob'',
          u_permission_level = Some USER, u_public_ssh_key = Some bob_key\<rparr>],
      workers = [], gpus = [], clock = 0,
      configs = [\<lparr>sc_config = \<lparr>cfg_id = ''id-beer_ssh-key_42'',
                                  cfg_name = ''beer_ssh-key_42''\<rparr>,
                  sc_data = bob_key\<rparr>],
      services = [], nodes = []\<rparr>"

definition node1 :: Worker where
  "node1 = \<lparr>wk_hostname = ''gpu-node-1'', wk_external_ip = Some ''10.0.0.5'',
            wk_volumes_root = ''/srv/beer'', wk_registered = 0\<rparr>"

definition node2 :: Worker where
  "node2 = \<lparr>wk_hostname = ''gpu-node-2'', wk_external_ip = Some ''10.0.0.6'',
            wk_volumes_root = ''/srv/beer'', wk_registered = 0\<rparr>"

definition world2 :: world where
  "world2 =
     world1\<lparr>workers := [node1, node2],
            gpus := [\<lparr>gpu_uuid = ''GPU-0'', gpu_worker = ''gpu-node-1'', gpu_available = True\<rparr>,
                     \<lparr>gpu_uuid = ''GPU-9'', gpu_worker = ''gpu-node-2'', gpu_available = True\<rparr>],
            nodes := [\<lparr>node_state = ''ready'', node_availability = ''active'',
                       node_hostname = ''gpu-node-1''\<rparr>,
                      \<lparr>node_state = ''down'', node_availability = ''active'',
                       node_hostname = ''gpu-node-2''\<rparr>]\<rparr>"

definition job0 :: JobRequestModel where
  "job0 =
     \<lparr>job_worker_hostname = ''gpu-node-1'', job_image = ''beer/runtime:latest'',
      job_gpus = [Map.empty(''uuid'' \<mapsto> ''GPU-0''), Map.empty(''uuid'' \<mapsto> ''GPU-1'')],
      job_expected_duration = 2, job_volume_mount = ''/data'', job_user_id = ''42''\<rparr>"

definition now0 :: datetime where
  "now0 = \<lparr>dt_year = 2021, dt_month = 12, dt_day = 31, dt_hour = 23, dt_minute = 30,
            dt_second = 15, dt_microsecond = 500\<rparr>"

section \<open>Properties\<close>

lemma ReturnCodes_attr_simps:
  "ReturnCodes_attr ''DB_ERROR'' = Inr DB_ERROR"
  "ReturnCodes_attr ''PERMISSION_ERROR'' = Inr PERMISSION_ERROR"
  "ReturnCodes_attr ''ALREADY_REGISTERED_ERROR'' = Inr ALREADY_REGISTERED_ERROR"
  "ReturnCodes_attr ''NOT_REGISTERED_ERROR'' = Inr NOT_REGISTERED_ERROR"
  "ReturnCodes_attr ''KEY_MISSING_ERROR'' = Inr KEY_MISSING_ERROR"
  "ReturnCodes_attr ''WORKER_INFO'' = Inr WORKER_INFO"
  "ReturnCodes_attr ''REGISTRATION_SUCCESSFUL'' = Inr REGISTRATION_SUCCESSFUL"
  "ReturnCodes_attr ''DISPATCH_OK'' = Inr DISPATCH_OK"
  "ReturnCodes_attr ''RESOURCES'' = Inr RESOURCES"
  "ReturnCodes_attr ''READY'' = Inl (AttributeError ''READY'')"
  "ReturnCodes_attr ''KEY_IN_USE_ERROR'' = Inl (AttributeError ''KEY_IN_USE_ERROR'')"
  "ReturnCodes_attr ''RUNTIME_ERROR'' = Inl (AttributeError ''RUNTIME_ERROR'')"
  "ReturnCodes_attr ''SET_KEY_SUCCESSFUL'' = Inl (AttributeError ''SET_KEY_SUCCESSFUL'')"
  "ReturnCodes_attr ''KEY_CHECK'' = Inl (AttributeError ''KEY_CHECK'')"
  "ReturnCodes_attr ''JOB_LIST'' = Inl (AttributeError ''JOB_LIST'')"
  by (simp_all add: ReturnCodes_attr_def ReturnCodes_list_def)

subsection \<open>The in-memory registry\<close>

lemma find_append_one:
  "find P (xs @ [u]) =
     (case find P xs of None \<Rightarrow> (if P u then Some u else None) | Some x \<Rightarrow> Some x)"
  by (induction xs) auto

lemma find_replace:
  "find (\<lambda>v. u_id v = uid) (map (\<lambda>v. if u_id v = u_id u then u else v) xs) =
     (if u_id u = uid then (if find (\<lambda>v. u_id v = uid) xs = None then None else Some u)
      else find (\<lambda>v. u_id v = uid) xs)"
  by (induction xs) auto

lemma find_user_put_user:
  "find_user uid (put_user u w) = (if u_id u = uid then Some u else find_user uid w)"
  by (auto simp: find_user_def put_user_def find_append_one find_replace split: option.splits)

lemma find_user_id: "find_user uid w = Some u \<Longrightarrow> u_id u = uid"
  by (auto simp: find_user_def find_Some_iff)

lemma stored_level_update_details:
  "stored_level uid (snd (db_update_details uid' un fn w)) = stored_level uid w"
  by (auto simp: stored_level_def db_update_details_def find_user_put_user
      split: option.splits dest: find_user_id)

lemma update_details_ok:
  "\<exists>w1. db_update_details uid un fn w = (Inr (), w1)"
  by (auto simp: db_update_details_def split: option.splits)

subsection \<open>The permission check\<close>

lemma permission_check_passes_iff:
  "fst (permission_check db rq lvl w) = Inr None \<longleftrightarrow>
     (\<exists>u w1. User_update_details db (user_id rq) (username rq) (full_name rq) w = (Inr u, w1) \<and>
        (lvl = USER \<longrightarrow> User_is_registered db (user_id rq) w1 = Inr True) \<and>
        User_permission_check db (user_id rq) (level_value lvl) w1 = Inr True)"
  by (auto simp: permission_check_def ManagerAnswer_new_def ReturnCodes_attr_simps
      split: prod.splits sum.splits if_splits)

lemma admins_text_usernames:
  "admins_text
     (filter (\<lambda>u. u_permission_level u = Some OWNER \<or> u_permission_level u = Some ADMIN) xs) =
   str_join [CHR 0x0A]
     (map (\<lambda>n. ''- @'' @ n)
        (List.map_filter
           (\<lambda>u. if u_permission_level u = Some OWNER \<or> u_permission_level u = Some ADMIN
                then u_username u else None) xs))"
proof -
  have "List.map_filter
          (\<lambda>admin. case u_username admin of None \<Rightarrow> None | Some n \<Rightarrow> Some (''- @'' @ n))
          (filter (\<lambda>u. u_permission_level u = Some OWNER \<or> u_permission_level u = Some ADMIN) xs) =
        map (\<lambda>n. ''- @'' @ n)
          (List.map_filter
             (\<lambda>u. if u_permission_level u = Some OWNER \<or> u_permission_level u = Some ADMIN
                  then u_username u else None) xs)"
    by (induction xs) (auto split: option.splits)
  then show ?thesis by (simp add: admins_text_def)
qed

lemma registry_admits_iff:
  "fst (permission_check registry rq lvl w) = Inr None \<longleftrightarrow>
     (\<exists>l. stored_level (user_id rq) w = Some l \<and> level_value l \<le> level_value lvl)"
proof -
  obtain w1 where
    w1: "db_update_details (user_id rq) (username rq) (full_name rq) w = (Inr (), w1)"
    using update_details_ok by blast
  have sl: "stored_level (user_id rq) w1 = stored_level (user_id rq) w"
    using stored_level_update_details
      [of "user_id rq" "user_id rq" "username rq" "full_name rq" w] w1
    by simp
  show ?thesis
    unfolding permission_check_passes_iff
    using w1 sl
    by (auto simp: registry_def db_is_registered_def db_permission_check_def
        split: option.splits)
qed

text \<open>
  C2. On the registry of the spec, \<^verbatim>\<open>permission_check\<close> admits the caller (returns
  \<^verbatim>\<open>None\<close>) exactly when the registry holds a level for the caller that is
  numerically at most the required one (\<open>OWNER\<close> is 0), the caller being registered
  when the required level is \<open>USER\<close>. When the required level is \<open>USER\<close> and the
  caller is not registered, it returns the \<open>NOT_REGISTERED_ERROR\<close> answer, and the
  data of that answer hold, under \<open>admins\<close>, one line \<open>- @username\<close> for each user
  that is Owner or Admin at that moment and has a username, in the registry's order.
\<close>

theorem permission_check_admits_iff:
  "(fst (permission_check registry rq lvl w) = Inr None \<longleftrightarrow>
     (\<exists>l. stored_level (user_id rq) w = Some l \<and> level_value l \<le> level_value lvl \<and>
          (lvl = USER \<longrightarrow> db_is_registered (user_id rq) w = Inr True))) \<and>
   (lvl = USER \<and> db_is_registered (user_id rq) w = Inr False \<longrightarrow>
      fst (permission_check registry rq lvl w) =
        Inr (Some \<lparr>code = NOT_REGISTERED_ERROR,
                   data = [(''admins'',
                            PyStr (str_join [CHR 0x0A]
                              (map (\<lambda>n. ''- @'' @ n)
                                 (admin_usernames
                                    (snd (db_update_details (user_id rq) (username rq)
                                            (full_name rq) w))))))]\<rparr>))"
proof -
  obtain w1 where
    w1: "db_update_details (user_id rq) (username rq) (full_name rq) w = (Inr (), w1)"
    using update_details_ok by blast
  have sl: "stored_level (user_id rq) w1 = stored_level (user_id rq) w"
    using stored_level_update_details
      [of "user_id rq" "user_id rq" "username rq" "full_name rq" w] w1
    by simp
  have a: "fst (permission_check registry rq lvl w) = Inr None \<longleftrightarrow>
     (\<exists>l. stored_level (user_id rq) w = Some l \<and> level_value l \<le> level_value lvl \<and>
          (lvl = USER \<longrightarrow> db_is_registered (user_id rq) w = Inr True))"
    unfolding permission_check_passes_iff
    using w1 sl
    by (auto simp: registry_def db_is_registered_def db_permission_check_def
        split: option.splits)
  have b: "lvl = USER \<and> db_is_registered (user_id rq) w = Inr False \<longrightarrow>
      fst (permission_check registry rq lvl w) =
        Inr (Some \<lparr>code = NOT_REGISTERED_ERROR,
                   data = [(''admins'',
                            PyStr (str_join [CHR 0x0A]
                              (map (\<lambda>n. ''- @'' @ n) (admin_usernames w1))))]\<rparr>)"
    using w1 sl
    by (auto simp: permission_check_def registry_def db_is_registered_def db_get_admins_def
        ManagerAnswer_new_def ReturnCodes_attr_simps admins_text_usernames admin_usernames_def)
  show ?thesis using a b w1 by simp
qed

theorem permission_check_admits_iff_witness:
  "fst (permission_check registry owner_rq ADMIN admins_world) = Inr None \<and>
   fst (permission_check registry admin_rq ADMIN admins_world) = Inr None \<and>
   fst (permission_check registry member_rq USER admins_world) = Inr None \<and>
   fst (permission_check registry admin_rq OWNER admins_world) \<noteq> Inr None \<and>
   fst (permission_check registry member_rq ADMIN admins_world) \<noteq> Inr None \<and>
   fst (permission_check registry stranger_rq ADMIN admins_world) \<noteq> Inr None \<and>
   fst (permission_check registry stranger_rq USER admins_world) =
     Inr (Some \<lparr>code = NOT_REGISTERED_ERROR,
                data = [(''admins'', PyStr (''- @alice'' @ [CHR 0x0A] @ ''- @carol''))]\<rparr>)"
proof -
  have lv: "stored_level (user_id owner_rq) admins_world = Some OWNER"
    "stored_level (user_id admin_rq) admins_world = Some ADMIN"
    "stored_level (user_id member_rq) admins_world = Some USER"
    "stored_level (user_id stranger_rq) admins_world = None"
    by (simp_all add: stored_level_def find_user_def owner_rq_def admin_rq_def member_rq_def
        stranger_rq_def admins_world_def)
  have reg: "db_is_registered (user_id member_rq) admins_world = Inr True"
    "db_is_registered (user_id stranger_rq) admins_world = Inr False"
    using lv by (simp_all add: db_is_registered_def)
  have names: "admin_usernames (snd (db_update_details (user_id stranger_rq)
       (username stranger_rq) (full_name stranger_rq) admins_world)) = [''alice'', ''carol'']"
    by (simp add: admin_usernames_def db_update_details_def find_user_def put_user_def
        stranger_rq_def admins_world_def)
  show ?thesis
    using permission_check_admits_iff[of owner_rq ADMIN admins_world]
      permission_check_admits_iff[of admin_rq ADMIN admins_world]
      permission_check_admits_iff[of member_rq USER admins_world]
      permission_check_admits_iff[of admin_rq OWNER admins_world]
      permission_check_admits_iff[of member_rq ADMIN admins_world]
      permission_check_admits_iff[of stranger_rq ADMIN admins_world]
      permission_check_admits_iff[of stranger_rq USER admins_world] lv reg names
    by simp
qed

subsection \<open>Granting a level\<close>

text \<open>
  C1, at the Owner \<open>1\<close> granting \<open>ADMIN\<close> to the registered user \<open>42\<close>. The
  escalation target of \<open>ADMIN\<close> is \<open>OWNER\<close>, and the caller passes the permission check
  at \<open>OWNER\<close>. \<^verbatim>\<open>set_permission\<close> answers \<open>PERMISSION_ERROR\<close> and the level of \<open>42\<close>
  stays \<open>USER\<close>: the guard \<^verbatim>\<open>if not permission_check(...)\<close> is true exactly when the
  check returns \<^verbatim>\<open>None\<close>, that is when it passes.
\<close>

theorem set_permission_rejects_admitted_owner:
  "higher_permission ADMIN = Inr OWNER \<and>
   fst (permission_check registry owner_rq OWNER world0) = Inr None \<and>
   stored_level ''42'' world0 = Some USER \<and>
   set_permission registry owner_rq ''42'' ADMIN world0 =
     (Inr \<lparr>code = PERMISSION_ERROR, data = []\<rparr>, world0)"
  by (simp add: set_permission_def permission_check_def registry_def higher_permission_def
      PermissionLevel_list_def list_getitem_def db_update_details_def db_permission_check_def
      stored_level_def find_user_def put_user_def owner_rq_def world0_def
      ManagerAnswer_new_def ReturnCodes_attr_simps)

subsection \<open>Levels and codes\<close>


lemma higher_permission_cases:
  "higher_permission L = Inr (case L of OWNER \<Rightarrow> OWNER | ADMIN \<Rightarrow> OWNER | USER \<Rightarrow> ADMIN)"
  by (cases L) (simp_all add: higher_permission_def PermissionLevel_list_def list_getitem_def)

text \<open>
  C10. \<^verbatim>\<open>higher_permission\<close> returns a level for each of the three permission levels
  and never raises: for \<open>OWNER\<close> it returns \<open>OWNER\<close> itself, a fixed point at the
  strongest level, for \<open>ADMIN\<close> it returns \<open>OWNER\<close> and for \<open>USER\<close> it returns
  \<open>ADMIN\<close>. So the permission check of an operation that would grant \<open>OWNER\<close>, made
  at the level \<^verbatim>\<open>higher_permission\<close> returns for \<open>OWNER\<close>, admits a caller exactly
  when the level the registry holds for the caller is \<open>OWNER\<close>: it asks for an Owner
  and for no stronger authority. (What \<^verbatim>\<open>set_permission\<close> does with the outcome of
  that check is the subject of C1.)
\<close>

theorem higher_permission_total_fixed_point:
  "higher_permission OWNER = Inr OWNER \<and>
   higher_permission ADMIN = Inr OWNER \<and>
   higher_permission USER = Inr ADMIN \<and>
   (\<forall>l. \<exists>h. higher_permission l = Inr h \<and> level_value h \<le> level_value l) \<and>
   (\<forall>h l. higher_permission OWNER = Inr h \<and> stored_level (user_id rq) w = Some l \<longrightarrow>
      (fst (permission_check registry rq h w) = Inr None \<longleftrightarrow> l = OWNER))"
proof -
  have v: "higher_permission OWNER = Inr OWNER" "higher_permission ADMIN = Inr OWNER"
    "higher_permission USER = Inr ADMIN"
    by (simp_all add: higher_permission_cases)
  have t: "\<exists>h. higher_permission l = Inr h \<and> level_value h \<le> level_value l" for l
    by (cases l) (simp_all add: v)
  have adm: "fst (permission_check registry rq OWNER w) = Inr None \<longleftrightarrow> l = OWNER"
    if "stored_level (user_id rq) w = Some l" for l
    using that by (cases l) (simp_all add: registry_admits_iff)
  show ?thesis using v t adm by simp
qed

theorem higher_permission_total_fixed_point_witness:
  "stored_level (user_id owner_rq) admins_world = Some OWNER \<and>
   fst (permission_check registry owner_rq OWNER admins_world) = Inr None \<and>
   stored_level (user_id admin_rq) admins_world = Some ADMIN \<and>
   fst (permission_check registry admin_rq OWNER admins_world) \<noteq> Inr None"
proof -
  have lv: "stored_level (user_id owner_rq) admins_world = Some OWNER"
    "stored_level (user_id admin_rq) admins_world = Some ADMIN"
    by (simp_all add: stored_level_def find_user_def owner_rq_def admin_rq_def admins_world_def)
  show ?thesis
    using higher_permission_total_fixed_point[of owner_rq admins_world]
      higher_permission_total_fixed_point[of admin_rq admins_world] lv
    by simp
qed

subsection \<open>The check before any write\<close>

text \<open>
  The state after \<^verbatim>\<open>permission_check\<close> is the state after the contact refresh
  \<^verbatim>\<open>User.update_details\<close>, whatever the check answers; and at a level other than
  \<^verbatim>\<open>USER\<close> the check never returns an answer (it admits or it raises).
\<close>

lemma permission_check_world:
  "snd (permission_check db rq lvl w) =
     snd (User_update_details db (user_id rq) (username rq) (full_name rq) w)"
  by (auto simp: permission_check_def split: prod.splits sum.splits if_splits)

lemma permission_check_no_answer:
  "lvl \<noteq> USER \<Longrightarrow> fst (permission_check db rq lvl w) \<noteq> Inr (Some a)"
  by (auto simp: permission_check_def ManagerAnswer_new_def ReturnCodes_attr_simps
      split: prod.splits sum.splits if_splits)

lemma set_permission_never_grants:
  assumes "higher_permission L = Inr r"
  shows "snd (set_permission db rq uid L w) = snd (permission_check db rq r w) \<and>
   (fst (set_permission db rq uid L w) = Inr \<lparr>code = PERMISSION_ERROR, data = []\<rparr> \<or>
    (\<exists>e. fst (set_permission db rq uid L w) = Inl e))"
proof -
  have r: "r \<noteq> USER" using assms higher_permission_cases[of L] by (cases L) auto
  obtain x w1 where pc: "permission_check db rq r w = (x, w1)"
    by (cases "permission_check db rq r w")
  have nx: "x \<noteq> Inr (Some a)" for a
    using permission_check_no_answer[OF r, of db rq w a] pc by simp
  show ?thesis
    using assms pc nx
    by (cases x; cases "projr x")
       (simp_all add: set_permission_def ManagerAnswer_new_def ReturnCodes_attr_simps)
qed

lemma after_failed_check:
  assumes "fst (permission_check db rq USER w) \<noteq> Inr None"
  shows "snd (set_ssh_key db client rq k w) = snd (permission_check db rq USER w)"
    and "snd (check_ssh_key db rq w) = snd (permission_check db rq USER w)"
    and "snd (dispatch db client now rq job w) = snd (permission_check db rq USER w)"
    and "snd (job_list db client rq w) = snd (permission_check db rq USER w)"
    and "snd (list_resources db client rq oo oa w) = snd (permission_check db rq USER w)"
proof -
  obtain r w1 where pc: "permission_check db rq USER w = (r, w1)"
    by (cases "permission_check db rq USER w")
  with assms have r: "r \<noteq> Inr None" by simp
  show "snd (set_ssh_key db client rq k w) = snd (permission_check db rq USER w)"
    using pc r by (cases r; cases "projr r") (simp_all add: set_ssh_key_def)
  show "snd (check_ssh_key db rq w) = snd (permission_check db rq USER w)"
    using pc r by (cases r; cases "projr r") (simp_all add: check_ssh_key_def)
  show "snd (dispatch db client now rq job w) = snd (permission_check db rq USER w)"
    using pc r by (cases r; cases "projr r") (simp_all add: dispatch_def)
  show "snd (job_list db client rq w) = snd (permission_check db rq USER w)"
    using pc r by (cases r; cases "projr r") (simp_all add: job_list_def)
  show "snd (list_resources db client rq oo oa w) = snd (permission_check db rq USER w)"
    using pc r by (cases r; cases "projr r") (simp_all add: list_resources_def)
qed

lemma answer_of_check:
  assumes "fst (permission_check db rq USER w) = Inr (Some a)"
  shows "fst (set_ssh_key db client rq k w) = Inr a"
    and "fst (check_ssh_key db rq w) = Inr a"
    and "fst (dispatch db client now rq job w) = Inr a"
    and "fst (job_list db client rq w) = Inr a"
    and "fst (list_resources db client rq oo oa w) = Inr a"
proof -
  obtain w1 where pc: "permission_check db rq USER w = (Inr (Some a), w1)"
    using assms by (cases "permission_check db rq USER w") simp
  show "fst (set_ssh_key db client rq k w) = Inr a" using pc by (simp add: set_ssh_key_def)
  show "fst (check_ssh_key db rq w) = Inr a" using pc by (simp add: check_ssh_key_def)
  show "fst (dispatch db client now rq job w) = Inr a" using pc by (simp add: dispatch_def)
  show "fst (job_list db client rq w) = Inr a" using pc by (simp add: job_list_def)
  show "fst (list_resources db client rq oo oa w) = Inr a"
    using pc by (simp add: list_resources_def)
qed

lemma register_user_after_failed_check:
  assumes "fst (permission_check db rq ADMIN w) \<noteq> Inr None"
  shows "snd (register_user db rq uid w) = snd (permission_check db rq ADMIN w)"
proof -
  obtain r w1 where pc: "permission_check db rq ADMIN w = (r, w1)"
    by (cases "permission_check db rq ADMIN w")
  with assms have r: "r \<noteq> Inr None" by simp
  show ?thesis using pc r by (cases r; cases "projr r") (simp_all add: register_user_def)
qed

lemma stranger_refused:
  "permission_check registry stranger_rq USER world2 =
     (Inr (Some \<lparr>code = NOT_REGISTERED_ERROR, data = [(''admins'', PyStr ''- @alice'')]\<rparr>),
      snd (db_update_details ''7'' (Some ''eve'') ''Eve'' world2))"
  by (simp add: permission_check_def registry_def db_update_details_def db_is_registered_def
      db_get_admins_def stored_level_def find_user_def put_user_def stranger_rq_def
      world2_def world1_def admins_text_def List.map_filter_def
      ManagerAnswer_new_def ReturnCodes_attr_simps)

lemma member_refused:
  "fst (permission_check registry member_rq ADMIN world2) = Inl (ValidationError ''data'')"
  "fst (permission_check registry member_rq OWNER world2) = Inl (ValidationError ''data'')"
  "snd (db_update_details ''42'' (Some ''bob'') ''Bob'' world2) = world2"
  by (simp_all add: permission_check_def registry_def db_update_details_def
      db_permission_check_def stored_level_def find_user_def put_user_def member_rq_def
      world2_def world1_def ManagerAnswer_new_def ReturnCodes_attr_simps)

lemma nobody_admitted_on_empty:
  "fst (permission_check registry rq lvl empty_world) \<noteq> Inr None"
  by (simp add: registry_admits_iff stored_level_def find_user_def empty_world_def)

text \<open>
  C5, for the handlers that receive the identity of a requester
  (\<^verbatim>\<open>/set_ssh_key\<close>, \<^verbatim>\<open>/check_ssh_key\<close>, \<^verbatim>\<open>/job\<close>, \<^verbatim>\<open>/job_list\<close>,
  \<^verbatim>\<open>/list_resources\<close> at level \<^verbatim>\<open>USER\<close>, \<^verbatim>\<open>/register_user\<close> at level \<^verbatim>\<open>ADMIN\<close>,
  \<^verbatim>\<open>/set_permission\<close> at the level above the granted one), over any registry and
  any Docker client. When the permission check does not admit the caller (it
  returns an answer or it raises), the state the handler leaves is the state left
  by the contact refresh of the check itself: no other registry write, no config
  operation and no service creation has run. When the check at level \<^verbatim>\<open>USER\<close>
  returns an answer, the handler returns that answer.
\<close>

theorem failed_check_ends_the_handler:
  "(fst (permission_check db rq USER w) \<noteq> Inr None \<longrightarrow>
      snd (set_ssh_key db client rq k w) =
        snd (User_update_details db (user_id rq) (username rq) (full_name rq) w) \<and>
      snd (check_ssh_key db rq w) =
        snd (User_update_details db (user_id rq) (username rq) (full_name rq) w) \<and>
      snd (dispatch db client now rq job w) =
        snd (User_update_details db (user_id rq) (username rq) (full_name rq) w) \<and>
      snd (job_list db client rq w) =
        snd (User_update_details db (user_id rq) (username rq) (full_name rq) w) \<and>
      snd (list_resources db client rq oo oa w) =
        snd (User_update_details db (user_id rq) (username rq) (full_name rq) w)) \<and>
   (fst (permission_check db rq ADMIN w) \<noteq> Inr None \<longrightarrow>
      snd (register_user db rq uid w) =
        snd (User_update_details db (user_id rq) (username rq) (full_name rq) w)) \<and>
   (\<forall>r. higher_permission L = Inr r \<and> fst (permission_check db rq r w) \<noteq> Inr None \<longrightarrow>
      snd (set_permission db rq uid L w) =
        snd (User_update_details db (user_id rq) (username rq) (full_name rq) w)) \<and>
   (\<forall>a. fst (permission_check db rq USER w) = Inr (Some a) \<longrightarrow>
      fst (set_ssh_key db client rq k w) = Inr a \<and>
      fst (check_ssh_key db rq w) = Inr a \<and>
      fst (dispatch db client now rq job w) = Inr a \<and>
      fst (job_list db client rq w) = Inr a \<and>
      fst (list_resources db client rq oo oa w) = Inr a)"
proof -
  have u: "fst (permission_check db rq USER w) \<noteq> Inr None \<longrightarrow>
      snd (set_ssh_key db client rq k w) =
        snd (User_update_details db (user_id rq) (username rq) (full_name rq) w) \<and>
      snd (check_ssh_key db rq w) =
        snd (User_update_details db (user_id rq) (username rq) (full_name rq) w) \<and>
      snd (dispatch db client now rq job w) =
        snd (User_update_details db (user_id rq) (username rq) (full_name rq) w) \<and>
      snd (job_list db client rq w) =
        snd (User_update_details db (user_id rq) (username rq) (full_name rq) w) \<and>
      snd (list_resources db client rq oo oa w) =
        snd (User_update_details db (user_id rq) (username rq) (full_name rq) w)"
    by (simp add: after_failed_check permission_check_world)
  have a: "fst (permission_check db rq ADMIN w) \<noteq> Inr None \<longrightarrow>
      snd (register_user db rq uid w) =
        snd (User_update_details db (user_id rq) (username rq) (full_name rq) w)"
    by (simp add: register_user_after_failed_check permission_check_world)
  have s: "\<forall>r. higher_permission L = Inr r \<and> fst (permission_check db rq r w) \<noteq> Inr None \<longrightarrow>
      snd (set_permission db rq uid L w) =
        snd (User_update_details db (user_id rq) (username rq) (full_name rq) w)"
    by (simp add: set_permission_never_grants permission_check_world)
  have r: "\<forall>a. fst (permission_check db rq USER w) = Inr (Some a) \<longrightarrow>
      fst (set_ssh_key db client rq k w) = Inr a \<and>
      fst (check_ssh_key db rq w) = Inr a \<and>
      fst (dispatch db client now rq job w) = Inr a \<and>
      fst (job_list db client rq w) = Inr a \<and>
      fst (list_resources db client rq oo oa w) = Inr a"
    by (simp add: answer_of_check)
  show ?thesis using u a s r by blast
qed

text \<open>
  The theorem at an unregistered caller and at a caller whose level is too weak,
  on a registry with workers, GPUs, a config and two nodes.
\<close>

theorem failed_check_ends_the_handler_witness:
  "snd (set_ssh_key registry swarm stranger_rq bob_key world2) =
     snd (db_update_details ''7'' (Some ''eve'') ''Eve'' world2) \<and>
   snd (dispatch registry swarm now0 stranger_rq job0 world2) =
     snd (db_update_details ''7'' (Some ''eve'') ''Eve'' world2) \<and>
   fst (dispatch registry swarm now0 stranger_rq job0 world2) =
     Inr \<lparr>code = NOT_REGISTERED_ERROR, data = [(''admins'', PyStr ''- @alice'')]\<rparr> \<and>
   fst (list_resources registry swarm stranger_rq True True world2) =
     Inr \<lparr>code = NOT_REGISTERED_ERROR, data = [(''admins'', PyStr ''- @alice'')]\<rparr> \<and>
   snd (register_user registry member_rq ''7'' world2) = world2 \<and>
   snd (set_permission registry member_rq ''7'' ADMIN world2) = world2"
proof -
  have s: "fst (permission_check registry stranger_rq USER world2) \<noteq> Inr None"
    "fst (permission_check registry stranger_rq USER world2) =
       Inr (Some \<lparr>code = NOT_REGISTERED_ERROR, data = [(''admins'', PyStr ''- @alice'')]\<rparr>)"
    by (simp_all add: stranger_refused)
  have m: "fst (permission_check registry member_rq ADMIN world2) \<noteq> Inr None"
    "higher_permission ADMIN = Inr OWNER \<and>
       fst (permission_check registry member_rq OWNER world2) \<noteq> Inr None"
    by (simp_all add: member_refused higher_permission_cases)
  have su: "User_update_details registry (user_id stranger_rq) (username stranger_rq)
      (full_name stranger_rq) world2 = db_update_details ''7'' (Some ''eve'') ''Eve'' world2"
    by (simp add: registry_def stranger_rq_def)
  have mu: "snd (User_update_details registry (user_id member_rq) (username member_rq)
      (full_name member_rq) world2) = world2"
    using member_refused(3) by (simp add: registry_def member_rq_def)
  show ?thesis
    using failed_check_ends_the_handler
        [of registry stranger_rq world2 swarm bob_key now0 job0 True True "''7''" ADMIN]
      failed_check_ends_the_handler
        [of registry member_rq world2 swarm bob_key now0 job0 True True "''7''" ADMIN]
      s m su mu
    by simp
qed

text \<open>
  \<^verbatim>\<open>add_worker\<close>, the handler of \<^verbatim>\<open>/join\<close>, receives no requester and runs no
  permission check. On the empty registry no caller passes the check at any level,
  and the handler still writes the worker record.
\<close>

theorem join_writes_without_a_check:
  "(\<forall>rq lvl. fst (permission_check registry rq lvl empty_world) \<noteq> Inr None) \<and>
   add_worker registry joining ''10.0.0.5'' empty_world =
     (Inr \<lparr>code = WORKER_INFO, data = [(''info'', Worker_data node1)]\<rparr>,
      empty_world\<lparr>workers := [node1]\<rparr>)"
proof -
  have "add_worker registry joining ''10.0.0.5'' empty_world =
     (Inr \<lparr>code = WORKER_INFO, data = [(''info'', Worker_data node1)]\<rparr>,
      empty_world\<lparr>workers := [node1]\<rparr>)"
    by (simp add: add_worker_def registry_def db_register_worker_def find_worker_def
        joining_def node1_def empty_world_def ManagerAnswer_new_def ReturnCodes_attr_simps Let_def)
  then show ?thesis using nobody_admitted_on_empty by simp
qed

subsection \<open>The SSH key\<close>

text \<open>
  C4, at the registered user \<^verbatim>\<open>42\<close> who has no key yet. \<^verbatim>\<open>set_ssh_key\<close> creates the
  config and saves the key in the user record, then raises \<^verbatim>\<open>AttributeError\<close> at
  \<^verbatim>\<open>ReturnCodes.SET_KEY_SUCCESSFUL\<close>, which the class body does not define: it never
  returns a success code. \<^verbatim>\<open>check_ssh_key\<close>, called next on the state with the key
  set, raises \<^verbatim>\<open>AttributeError\<close> at \<^verbatim>\<open>ReturnCodes.KEY_CHECK\<close> and reports nothing.
\<close>

theorem set_ssh_key_saves_then_raises:
  "map_option u_public_ssh_key (find_user ''42'' world0) = Some None \<and>
   set_ssh_key registry swarm member_rq bob_key world0 =
     (Inl (AttributeError ''SET_KEY_SUCCESSFUL''), world1) \<and>
   map_option u_public_ssh_key (find_user ''42'' world1) = Some (Some bob_key) \<and>
   check_ssh_key registry member_rq world1 = (Inl (AttributeError ''KEY_CHECK''), world1)"
  by (simp add: set_ssh_key_def check_ssh_key_def remove_old_config_def permission_check_def
      registry_def swarm_def db_update_details_def db_is_registered_def db_permission_check_def
      db_get_user_def db_save_public_ssh_key_def stored_level_def find_user_def put_user_def
      swarm_configs_get_def swarm_configs_create_def find_config_def CONFIG_PREFIX_def
      member_rq_def world0_def world1_def ManagerAnswer_new_def ReturnCodes_attr_simps)

subsection \<open>Dispatch to an unknown worker\<close>

lemma update_details_keeps_workers:
  "workers (snd (db_update_details uid un fn w)) = workers w"
  by (simp add: db_update_details_def put_user_def split: option.splits)

lemma find_worker_update_details:
  "find_worker h (snd (db_update_details uid un fn w)) = find_worker h w"
  by (simp add: find_worker_def update_details_keeps_workers)

lemma dispatch_lookup_raises:
  assumes "permission_check db rq USER w = (Inr None, w1)"
    and "Worker_get_by_id db (job_worker_hostname job) w1 = Inl e"
  shows "dispatch db client now rq job w = (Inl e, w1)"
  using assms by (simp add: dispatch_def)

lemma dispatch_lookup_raises_after_check:
  assumes "fst (permission_check db rq USER w) = Inr None"
    and "Worker_get_by_id db (job_worker_hostname job)
        (snd (User_update_details db (user_id rq) (username rq) (full_name rq) w)) = Inl e"
  shows "dispatch db client now rq job w =
      (Inl e, snd (User_update_details db (user_id rq) (username rq) (full_name rq) w))"
proof -
  have "permission_check db rq USER w =
      (Inr None, snd (User_update_details db (user_id rq) (username rq) (full_name rq) w))"
    using assms(1) permission_check_world[of db rq USER w]
    by (cases "permission_check db rq USER w") simp
  then show ?thesis using assms(2) by (rule dispatch_lookup_raises)
qed

lemma registry_dispatch_absent_worker:
  assumes l: "stored_level (user_id rq) rw \<noteq> None"
    and f: "find_worker (job_worker_hostname job) rw = None"
  shows "dispatch registry cl now rq job rw =
      (Inl DoesNotExist, snd (db_update_details (user_id rq) (username rq) (full_name rq) rw))"
proof -
  obtain lv where lv: "stored_level (user_id rq) rw = Some lv" using l by auto
  have "level_value lv \<le> level_value USER" by (cases lv) simp_all
  then have a: "fst (permission_check registry rq USER rw) = Inr None"
    using lv by (simp add: registry_admits_iff)
  have u: "User_update_details registry = db_update_details" by (simp add: registry_def)
  have "Worker_get_by_id registry (job_worker_hostname job)
      (snd (db_update_details (user_id rq) (username rq) (full_name rq) rw)) = Inl DoesNotExist"
    using f by (simp add: registry_def db_get_worker_def find_worker_update_details)
  then show ?thesis
    using dispatch_lookup_raises_after_check[of registry rq rw job DoesNotExist cl now] a u
    by simp
qed

lemma member_admitted_world1:
  "stored_level ''42'' world1 = Some USER"
  "stored_level ''42'' world2 = Some USER"
  "snd (db_update_details ''42'' (Some ''bob'') ''Bob'' world1) = world1"
  "snd (db_update_details ''42'' (Some ''bob'') ''Bob'' world2) = world2"
  by (simp_all add: stored_level_def find_user_def db_update_details_def put_user_def
      world1_def world2_def)

text \<open>
  C6, as the code has it. When the caller is admitted and the lookup
  \<^verbatim>\<open>Worker.get_by_id\<close> of the job's worker hostname raises, \<^verbatim>\<open>dispatch\<close> raises that
  exception: there is no \<^verbatim>\<open>try\<close> around the lookup, and no answer is returned. The
  state is the one left by the contact refresh of the permission check: the user
  lookup, the config lookup and the service creation have not run. On the in-memory
  registry, a job whose worker hostname has no \<^verbatim>\<open>Worker\<close> record, sent by a caller
  that holds a level, ends in \<^verbatim>\<open>DoesNotExist\<close>.
\<close>

theorem dispatch_absent_worker_raises:
  "(fst (permission_check db rq USER w) = Inr None \<and>
    Worker_get_by_id db (job_worker_hostname job)
      (snd (User_update_details db (user_id rq) (username rq) (full_name rq) w)) = Inl e \<longrightarrow>
    dispatch db client now rq job w =
      (Inl e, snd (User_update_details db (user_id rq) (username rq) (full_name rq) w))) \<and>
   (stored_level (user_id rq) rw \<noteq> None \<and> find_worker (job_worker_hostname job) rw = None \<longrightarrow>
    dispatch registry cl now rq job rw =
      (Inl DoesNotExist, snd (db_update_details (user_id rq) (username rq) (full_name rq) rw)))"
  using dispatch_lookup_raises_after_check[of db rq w job e client now]
    registry_dispatch_absent_worker[of rq rw job cl now]
  by blast

text \<open>
  The theorem at the user \<open>42\<close> and a job for \<open>gpu-node-3\<close>, on a registry whose
  workers are \<open>gpu-node-1\<close> and \<open>gpu-node-2\<close>.
\<close>

theorem dispatch_absent_worker_raises_witness:
  "dispatch registry swarm now0 member_rq (job0\<lparr>job_worker_hostname := ''gpu-node-3''\<rparr>) world2 =
     (Inl DoesNotExist, world2)"
proof -
  have f: "find_worker ''gpu-node-3'' world2 = None"
    by (simp add: find_worker_def world2_def node1_def node2_def)
  show ?thesis
    using dispatch_absent_worker_raises
        [of registry member_rq world2 "job0\<lparr>job_worker_hostname := ''gpu-node-3''\<rparr>"
          DoesNotExist swarm now0 world2 swarm]
      f member_admitted_world1
    by (simp add: member_rq_def)
qed

text \<open>
  The user \<open>42\<close> is admitted, the registry has no worker at all, and the job names
  \<open>gpu-node-1\<close>: \<^verbatim>\<open>dispatch\<close> returns no envelope, it raises \<^verbatim>\<open>DoesNotExist\<close>.
\<close>

theorem dispatch_unknown_worker_no_envelope:
  "fst (permission_check registry member_rq USER world1) = Inr None \<and>
   find_worker (job_worker_hostname job0) world1 = None \<and>
   dispatch registry swarm now0 member_rq job0 world1 = (Inl DoesNotExist, world1)"
proof -
  have a: "fst (permission_check registry member_rq USER world1) = Inr None"
    using member_admitted_world1(1) by (simp add: registry_admits_iff member_rq_def)
  have f: "find_worker (job_worker_hostname job0) world1 = None"
    by (simp add: find_worker_def world1_def)
  have "permission_check registry member_rq USER world1 = (Inr None, world1)"
    using a permission_check_world[of registry member_rq USER world1] member_admitted_world1(3)
    by (cases "permission_check registry member_rq USER world1")
       (simp add: registry_def member_rq_def)
  moreover have "Worker_get_by_id registry (job_worker_hostname job0) world1 = Inl DoesNotExist"
    using f by (simp add: registry_def db_get_worker_def)
  ultimately have "dispatch registry swarm now0 member_rq job0 world1 = (Inl DoesNotExist, world1)"
    by (rule dispatch_lookup_raises)
  with a f show ?thesis by simp
qed

subsection \<open>Listing the resources\<close>

lemma online_workers_reloaded:
  "list_all2 (\<lambda>n r. node_reload client n w = Inr r) ns live \<Longrightarrow>
   online_workers client ns w =
     Inr (map node_hostname
            (filter (\<lambda>r. node_state r = ''ready'' \<and> node_availability r = ''active'') live))"
  by (induction ns live rule: list_all2_induct) simp_all

lemma update_details_keeps_gpus:
  "gpus (snd (db_update_details uid un fn w)) = gpus w"
  by (simp add: db_update_details_def put_user_def split: option.splits)

lemma list_resources_flags:
  "list_resources db client rq oo oa w = list_resources db client rq oo' oa' w"
  by (simp add: list_resources_def)

lemma list_resources_admitted:
  assumes "fst (permission_check db rq USER w) = Inr None"
    and "nodes_list client ''worker''
          (snd (User_update_details db (user_id rq) (username rq) (full_name rq) w)) = Inr ns"
    and "list_all2 (\<lambda>n r. node_reload client n
          (snd (User_update_details db (user_id rq) (username rq) (full_name rq) w)) = Inr r)
          ns live"
    and "GPU_by_workers db
          (map node_hostname
             (filter (\<lambda>r. node_state r = ''ready'' \<and> node_availability r = ''active'') live))
          (snd (User_update_details db (user_id rq) (username rq) (full_name rq) w)) =
         Inr resources"
  shows "list_resources db client rq oo oa w =
      (Inr \<lparr>code = RESOURCES,
            data =
              [(''workers'',
                PyDict (dict_of (map (\<lambda>(worker, gpus). (wk_hostname worker, Worker_data worker))
                                   resources))),
               (''gpus'',
                PyDict (dict_of (map (\<lambda>(worker, gpus).
                                        (wk_hostname worker, PyList (map GPU_data gpus)))
                                   resources)))]\<rparr>,
       snd (User_update_details db (user_id rq) (username rq) (full_name rq) w))"
proof -
  have pc: "permission_check db rq USER w =
      (Inr None, snd (User_update_details db (user_id rq) (username rq) (full_name rq) w))"
    using assms(1) permission_check_world[of db rq USER w]
    by (cases "permission_check db rq USER w") simp
  show ?thesis
    using assms(2,4) online_workers_reloaded[OF assms(3)]
    by (simp add: list_resources_def pc resources_data_def ManagerAnswer_new_def
        ReturnCodes_attr_simps)
qed

lemma registry_list_resources:
  assumes l: "stored_level (user_id rq) rw \<noteq> None"
    and n: "nodes_list cl ''worker''
          (snd (db_update_details (user_id rq) (username rq) (full_name rq) rw)) = Inr ns"
    and r: "list_all2 (\<lambda>n r. node_reload cl n
          (snd (db_update_details (user_id rq) (username rq) (full_name rq) rw)) = Inr r)
          ns live"
  shows "list_resources registry cl rq oo oa rw =
      (let online =
         filter (\<lambda>k. \<exists>r \<in> set live. node_state r = ''ready'' \<and>
                    node_availability r = ''active'' \<and> node_hostname r = wk_hostname k)
           (workers rw)
       in (Inr \<lparr>code = RESOURCES,
            data =
              [(''workers'', PyDict (dict_of (map (\<lambda>k. (wk_hostname k, Worker_data k)) online))),
               (''gpus'',
                PyDict (dict_of (map (\<lambda>k. (wk_hostname k,
                                  PyList (map GPU_data
                                    (filter (\<lambda>g. gpu_worker g = wk_hostname k) (gpus rw)))))
                           online)))]\<rparr>,
       snd (db_update_details (user_id rq) (username rq) (full_name rq) rw)))"
proof -
  obtain lv where lv: "stored_level (user_id rq) rw = Some lv" using l by auto
  have "level_value lv \<le> level_value USER" by (cases lv) simp_all
  then have a: "fst (permission_check registry rq USER rw) = Inr None"
    using lv by (simp add: registry_admits_iff)
  have u: "User_update_details registry = db_update_details" by (simp add: registry_def)
  have m: "(\<lambda>k. wk_hostname k \<in> set (map node_hostname
             (filter (\<lambda>r. node_state r = ''ready'' \<and> node_availability r = ''active'') live))) =
        (\<lambda>k. \<exists>r \<in> set live. node_state r = ''ready'' \<and>
                    node_availability r = ''active'' \<and> node_hostname r = wk_hostname k)"
    by (rule ext) (auto simp: image_iff)
  have g: "GPU_by_workers registry
        (map node_hostname
           (filter (\<lambda>r. node_state r = ''ready'' \<and> node_availability r = ''active'') live))
        (snd (User_update_details registry (user_id rq) (username rq) (full_name rq) rw)) =
      Inr (map (\<lambda>k. (k, filter (\<lambda>g. gpu_worker g = wk_hostname k) (gpus rw)))
            (filter (\<lambda>k. \<exists>r \<in> set live. node_state r = ''ready'' \<and>
                    node_availability r = ''active'' \<and> node_hostname r = wk_hostname k)
              (workers rw)))"
    unfolding u
    by (simp only: registry_def beer_db.simps db_gpus_by_workers_def
        update_details_keeps_workers update_details_keeps_gpus m)
  show ?thesis
    using list_resources_admitted[of registry rq rw cl ns live _ oo oa, OF a] n r g
    by (simp add: u Let_def comp_def)
qed

text \<open>
  C8. \<^verbatim>\<open>list_resources\<close> does not read its two flags: any two settings give the same
  result. For an admitted caller, when the node listing and every reload succeed, the
  hostnames handed to \<^verbatim>\<open>GPU.by_workers\<close> are those of the reloaded nodes whose state
  is \<^verbatim>\<open>ready\<close> and whose availability is \<^verbatim>\<open>active\<close>, in the order of the listing, and
  the answer is \<^verbatim>\<open>RESOURCES\<close> with the workers and the GPU lists that this call returns.
  On the in-memory registry the answer holds the registered workers whose hostname is
  that of a ready and active node, each with the GPUs recorded for it, and no other.
\<close>

theorem list_resources_online_only:
  "list_resources db client rq oo oa w = list_resources db client rq oo' oa' w \<and>
   (fst (permission_check db rq USER w) = Inr None \<and>
    nodes_list client ''worker''
      (snd (User_update_details db (user_id rq) (username rq) (full_name rq) w)) = Inr ns \<and>
    list_all2 (\<lambda>n r. node_reload client n
      (snd (User_update_details db (user_id rq) (username rq) (full_name rq) w)) = Inr r)
      ns live \<and>
    GPU_by_workers db
      (map node_hostname
         (filter (\<lambda>r. node_state r = ''ready'' \<and> node_availability r = ''active'') live))
      (snd (User_update_details db (user_id rq) (username rq) (full_name rq) w)) =
      Inr resources \<longrightarrow>
    list_resources db client rq oo oa w =
      (Inr \<lparr>code = RESOURCES,
            data =
              [(''workers'',
                PyDict (dict_of (map (\<lambda>(worker, gpus). (wk_hostname worker, Worker_data worker))
                                   resources))),
               (''gpus'',
                PyDict (dict_of (map (\<lambda>(worker, gpus).
                                        (wk_hostname worker, PyList (map GPU_data gpus)))
                                   resources)))]\<rparr>,
       snd (User_update_details db (user_id rq) (username rq) (full_name rq) w))) \<and>
   (stored_level (user_id rq) rw \<noteq> None \<and>
    nodes_list cl ''worker''
      (snd (db_update_details (user_id rq) (username rq) (full_name rq) rw)) = Inr rns \<and>
    list_all2 (\<lambda>n r. node_reload cl n
      (snd (db_update_details (user_id rq) (username rq) (full_name rq) rw)) = Inr r)
      rns rlive \<longrightarrow>
    list_resources registry cl rq oo oa rw =
      (let online =
         filter (\<lambda>k. \<exists>r \<in> set rlive. node_state r = ''ready'' \<and>
                    node_availability r = ''active'' \<and> node_hostname r = wk_hostname k)
           (workers rw)
       in (Inr \<lparr>code = RESOURCES,
            data =
              [(''workers'', PyDict (dict_of (map (\<lambda>k. (wk_hostname k, Worker_data k)) online))),
               (''gpus'',
                PyDict (dict_of (map (\<lambda>k. (wk_hostname k,
                                  PyList (map GPU_data
                                    (filter (\<lambda>g. gpu_worker g = wk_hostname k) (gpus rw)))))
                           online)))]\<rparr>,
       snd (db_update_details (user_id rq) (username rq) (full_name rq) rw))))"
  using list_resources_flags[of db client rq oo oa w oo' oa']
    list_resources_admitted[of db rq w client ns live resources oo oa]
    registry_list_resources[of rq rw cl rns rlive oo oa]
  by blast

text \<open>
  The theorem on a swarm of two nodes, \<open>gpu-node-1\<close> ready and active and
  \<open>gpu-node-2\<close> down, both registered as workers with one GPU each.
\<close>

theorem list_resources_online_only_witness:
  "list_resources registry swarm member_rq True False world2 =
     (Inr \<lparr>code = RESOURCES,
           data =
             [(''workers'', PyDict [(''gpu-node-1'', Worker_data node1)]),
              (''gpus'',
               PyDict [(''gpu-node-1'',
                        PyList [GPU_data \<lparr>gpu_uuid = ''GPU-0'', gpu_worker = ''gpu-node-1'',
                                           gpu_available = True\<rparr>])])]\<rparr>,
      world2) \<and>
   list_resources registry swarm member_rq False True world2 =
     list_resources registry swarm member_rq True False world2"
proof -
  have u: "snd (db_update_details (user_id member_rq) (username member_rq)
      (full_name member_rq) world2) = world2"
    using member_admitted_world1(4) by (simp add: member_rq_def)
  have l: "stored_level (user_id member_rq) world2 \<noteq> None"
    using member_admitted_world1(2) by (simp add: member_rq_def)
  have n: "nodes_list swarm ''worker''
      (snd (db_update_details (user_id member_rq) (username member_rq)
         (full_name member_rq) world2)) = Inr (nodes world2)"
    by (simp add: swarm_def u)
  have r: "list_all2 (\<lambda>n r. node_reload swarm n
      (snd (db_update_details (user_id member_rq) (username member_rq)
         (full_name member_rq) world2)) = Inr r) (nodes world2) (nodes world2)"
    by (simp add: swarm_def list_all2_same)
  have t: "list_resources registry swarm member_rq True False world2 =
      list_resources registry swarm member_rq False True world2 \<and>
    list_resources registry swarm member_rq True False world2 =
      (let online =
         filter (\<lambda>k. \<exists>r \<in> set (nodes world2). node_state r = ''ready'' \<and>
                    node_availability r = ''active'' \<and> node_hostname r = wk_hostname k)
           (workers world2)
       in (Inr \<lparr>code = RESOURCES,
            data =
              [(''workers'', PyDict (dict_of (map (\<lambda>k. (wk_hostname k, Worker_data k)) online))),
               (''gpus'',
                PyDict (dict_of (map (\<lambda>k. (wk_hostname k,
                                  PyList (map GPU_data
                                    (filter (\<lambda>g. gpu_worker g = wk_hostname k) (gpus world2)))))
                           online)))]\<rparr>,
       snd (db_update_details (user_id member_rq) (username member_rq)
         (full_name member_rq) world2)))"
    using list_resources_online_only
        [of registry swarm member_rq True False world2 False True "nodes world2" "nodes world2"
          "[]" world2 swarm "nodes world2" "nodes world2"]
      n r l
    by blast
  have e: "(let online =
         filter (\<lambda>k. \<exists>r \<in> set (nodes world2). node_state r = ''ready'' \<and>
                    node_availability r = ''active'' \<and> node_hostname r = wk_hostname k)
           (workers world2)
       in (Inr \<lparr>code = RESOURCES,
            data =
              [(''workers'', PyDict (dict_of (map (\<lambda>k. (wk_hostname k, Worker_data k)) online))),
               (''gpus'',
                PyDict (dict_of (map (\<lambda>k. (wk_hostname k,
                                  PyList (map GPU_data
                                    (filter (\<lambda>g. gpu_worker g = wk_hostname k) (gpus world2)))))
                           online)))]\<rparr>,
       snd (db_update_details (user_id member_rq) (username member_rq)
         (full_name member_rq) world2))) =
     (Inr \<lparr>code = RESOURCES,
           data =
             [(''workers'', PyDict [(''gpu-node-1'', Worker_data node1)]),
              (''gpus'',
               PyDict [(''gpu-node-1'',
                        PyList [GPU_data \<lparr>gpu_uuid = ''GPU-0'', gpu_worker = ''gpu-node-1'',
                                           gpu_available = True\<rparr>])])]\<rparr>,
      world2)"
    unfolding u
    by (simp add: world2_def world1_def node1_def node2_def dict_of_def Let_def)
  from t have "list_resources registry swarm member_rq True False world2 =
     (Inr \<lparr>code = RESOURCES,
           data =
             [(''workers'', PyDict [(''gpu-node-1'', Worker_data node1)]),
              (''gpus'',
               PyDict [(''gpu-node-1'',
                        PyList [GPU_data \<lparr>gpu_uuid = ''GPU-0'', gpu_worker = ''gpu-node-1'',
                                           gpu_available = True\<rparr>])])]\<rparr>,
      world2)"
    unfolding e by (rule conjunct2)
  moreover from t have "list_resources registry swarm member_rq False True world2 =
      list_resources registry swarm member_rq True False world2"
    by (simp only:)
  ultimately show ?thesis by (rule conjI)
qed

text \<open>
  C3, at the handler of \<^verbatim>\<open>/ready\<close>. The handler takes no input. It does not return
  an envelope: \<^verbatim>\<open>ReturnCodes.READY\<close> is not a member the class body defines, so the
  handler raises \<^verbatim>\<open>AttributeError\<close>.
\<close>

theorem is_ready_raises:
  "is_ready = Inl (AttributeError ''READY'')"
  by (simp add: is_ready_def ManagerAnswer_new_def ReturnCodes_attr_simps)

end
